theory Spec2Isabelle
  imports Main "HOL-Library.Word"
begin

section \<open>DIMSE messages and the command assembler of go-netdicom (dimse.go)\<close>

subsection \<open>Machine types, tags, elements\<close>

type_synonym byte = "8 word"
type_synonym uint16 = "16 word"
type_synonym uint32 = "32 word"

text \<open>
  \<^verbatim>\<open>dicom.Tag{group, element}\<close>: two 16-bit numbers. The Go literal \<^verbatim>\<open>dicom.Tag{0, 1030}\<close>
  is \<open>dicom_Tag 0 1030\<close>, and \<^verbatim>\<open>dicom.Tag{0, 0x1030}\<close> is \<open>dicom_Tag 0 0x1030\<close>.
\<close>

datatype Tag = dicom_Tag (Group: uint16) (Element: uint16)

text \<open>
  The values of type \<^verbatim>\<open>interface{}\<close> that dimse.go hands to the element encoder are a
  \<^verbatim>\<open>uint16\<close>, a \<^verbatim>\<open>uint32\<close> or a \<^verbatim>\<open>string\<close>; a decoded element of unknown
  representation carries raw bytes.
\<close>

datatype iface = VString string | VUInt16 uint16 | VUInt32 uint32 | VBytes "byte list"

text \<open>
  \<^verbatim>\<open>dicom.DicomElement\<close>, reduced to the two fields that matter here: dimse.go compares
  \<^verbatim>\<open>elem.Tag\<close>, and the library's getters read the values.
\<close>

record DicomElement =
  Tag :: Tag
  Value :: "iface list"

text \<open>
  Go's \<^verbatim>\<open>error\<close> values. \<open>ElementNotFound\<close> is the error that \<^verbatim>\<open>findElementWithTag\<close>
  builds with \<^verbatim>\<open>fmt.Errorf\<close>; \<open>DicomError\<close> stands for any error that comes out of the
  element library.
\<close>

datatype error = ElementNotFound Tag | DicomError string

text \<open>
  A Go function either returns, or panics (\<^verbatim>\<open>log.Panicf\<close>, \<^verbatim>\<open>panic\<close>, a failed
  \<^verbatim>\<open>doassert\<close>, a nil pointer dereference), which ends the process unless some caller
  recovers, or never returns.
\<close>

datatype panic =
    UnknownDIMSECommand uint16
  | MixedContext byte byte
  | AssertionFailed
  | NilPointerDereference
  | MatchWithoutElements string

datatype 'a exec = Returns 'a | Panics panic | Hangs

fun andThen :: "'a exec \<Rightarrow> ('a \<Rightarrow> 'b exec) \<Rightarrow> 'b exec" where
  "andThen (Returns x) f = f x"
| "andThen (Panics p) f = Panics p"
| "andThen Hangs f = Hangs"

text \<open>
  Modelled from the spec: \<^verbatim>\<open>doassert\<close> is declared in another file of the package. The
  spec lists it among the "assertions in source" that panic: it returns when the
  condition holds and panics when it does not.
\<close>

definition doassert :: "bool \<Rightarrow> unit exec" where
  "doassert x = (if x then Returns () else Panics AssertionFailed)"

subsection \<open>The element library (github.com/yasushi-saito/go-dicom) as a parameter\<close>

text \<open>
  The element codec is an external library. The functions of it that dimse.go calls are
  the fields of a record, so that every statement below holds for whatever the library
  computes. A multi-valued Go result \<^verbatim>\<open>(T, error)\<close> is a pair whose second component is
  \<open>None\<close> for \<^verbatim>\<open>nil\<close>. The library functions are taken to return.

  An encoder is the sequence of writes requested of it since \<^verbatim>\<open>dicom.NewEncoder\<close>;
  \<open>EncoderFinish\<close> is what \<^verbatim>\<open>Finish\<close> returns after these writes. The state of a decoder
  is of an arbitrary type \<open>'d\<close>.
\<close>

datatype enc_op = EncodeDataElement Tag "iface list" | EncodeBytes "byte list"

type_synonym Encoder = "enc_op list"

record 'd dicomlib =
  NewDecoder :: "byte list \<Rightarrow> int \<Rightarrow> 'd"
  Len :: "'d \<Rightarrow> int"
  Error :: "'d \<Rightarrow> error option"
  ReadDataElement :: "'d \<Rightarrow> DicomElement \<times> 'd"
  Finish :: "'d \<Rightarrow> error option"
  GetString :: "DicomElement \<Rightarrow> string \<times> error option"
  GetUInt32 :: "DicomElement \<Rightarrow> uint32 \<times> error option"
  GetUInt16 :: "DicomElement \<Rightarrow> uint16 \<times> error option"
  EncoderFinish :: "Encoder \<Rightarrow> byte list \<times> error option"

subsection \<open>Looking elements up\<close>

fun findElementWithTag :: "DicomElement list \<Rightarrow> Tag \<Rightarrow> error + DicomElement" where
  "findElementWithTag [] tag = Inl (ElementNotFound tag)"
| "findElementWithTag (elem # elems) tag =
     (if Tag elem = tag then Inr elem else findElementWithTag elems tag)"

definition getStringFromElements ::
  "'d dicomlib \<Rightarrow> DicomElement list \<Rightarrow> Tag \<Rightarrow> string \<times> error option" where
  "getStringFromElements L elems tag =
     (case findElementWithTag elems tag of
        Inl err \<Rightarrow> ('''', Some err)
      | Inr e \<Rightarrow> GetString L e)"

definition getUInt32FromElements ::
  "'d dicomlib \<Rightarrow> DicomElement list \<Rightarrow> Tag \<Rightarrow> uint32 \<times> error option" where
  "getUInt32FromElements L elems tag =
     (case findElementWithTag elems tag of
        Inl err \<Rightarrow> (0, Some err)
      | Inr e \<Rightarrow> GetUInt32 L e)"

definition getUInt16FromElements ::
  "'d dicomlib \<Rightarrow> DicomElement list \<Rightarrow> Tag \<Rightarrow> uint16 \<times> error option" where
  "getUInt16FromElements L elems tag =
     (case findElementWithTag elems tag of
        Inl err \<Rightarrow> (0, Some err)
      | Inr e \<Rightarrow> GetUInt16 L e)"

definition encodeDataElementWithSingleValue :: "Encoder \<Rightarrow> Tag \<Rightarrow> iface \<Rightarrow> Encoder" where
  "encodeDataElementWithSingleValue e tag v = e @ [EncodeDataElement tag [v]]"

subsection \<open>Standard DIMSE tags\<close>

definition TagCommandGroupLength :: Tag where
  "TagCommandGroupLength = dicom_Tag 0 0"

definition TagCommandField :: Tag where
  "TagCommandField = dicom_Tag 0 0x100"

definition TagAffectedSOPClassUID :: Tag where
  "TagAffectedSOPClassUID = dicom_Tag 0x0000 0x0002"

definition TagMessageID :: Tag where
  "TagMessageID = dicom_Tag 0 0x0110"

definition TagMessageIDBeingRespondedTo :: Tag where
  "TagMessageIDBeingRespondedTo = dicom_Tag 0 0x0120"

definition TagPriority :: Tag where
  "TagPriority = dicom_Tag 0 0x0700"

definition TagCommandDataSetType :: Tag where
  "TagCommandDataSetType = dicom_Tag 0 0x0800"

definition TagStatus :: Tag where
  "TagStatus = dicom_Tag 0 0x0900"

definition TagAffectedSOPInstanceUID :: Tag where
  "TagAffectedSOPInstanceUID = dicom_Tag 0 0x1000"

definition TagMoveOriginatorApplicationEntityTitle :: Tag where
  "TagMoveOriginatorApplicationEntityTitle = dicom_Tag 0 0x1030"

definition TagMoveOriginatorMessageID :: Tag where
  "TagMoveOriginatorMessageID = dicom_Tag 0 0x1031"

definition CommandDataSetTypeNull :: uint16 where
  "CommandDataSetTypeNull = 0x101"

subsection \<open>C-STORE-RQ\<close>

record C_STORE_RQ =
  AffectedSOPClassUID :: string
  MessageID :: uint16
  Priority :: uint16
  CommandDataSetType :: uint16
  AffectedSOPInstanceUID :: string
  MoveOriginatorApplicationEntityTitle :: string
  MoveOriginatorMessageID :: uint16

text \<open>
  The methods have pointer receivers: \<open>None\<close> is the nil \<^verbatim>\<open>*C_STORE_RQ\<close>, and reading a
  field through it is a nil pointer dereference.
\<close>

definition C_STORE_RQ_HasData :: "C_STORE_RQ option \<Rightarrow> bool exec" where
  "C_STORE_RQ_HasData p =
     (case p of
        None \<Rightarrow> Panics NilPointerDereference
      | Some v \<Rightarrow>
          andThen (doassert (C_STORE_RQ.CommandDataSetType v \<noteq> CommandDataSetTypeNull))
            (\<lambda>_. Returns (C_STORE_RQ.CommandDataSetType v \<noteq> CommandDataSetTypeNull)))"

definition C_STORE_RQ_Encode :: "C_STORE_RQ option \<Rightarrow> Encoder \<Rightarrow> Encoder exec" where
  "C_STORE_RQ_Encode p e =
     (case p of
        None \<Rightarrow> Panics NilPointerDereference
      | Some v \<Rightarrow>
          (let e = encodeDataElementWithSingleValue e TagCommandField (VUInt16 1);
               e = encodeDataElementWithSingleValue e TagAffectedSOPClassUID
                     (VString (C_STORE_RQ.AffectedSOPClassUID v));
               e = encodeDataElementWithSingleValue e (dicom_Tag 0 0x110) (VUInt16 (MessageID v));
               e = encodeDataElementWithSingleValue e (dicom_Tag 0 0x700) (VUInt16 (Priority v));
               e = encodeDataElementWithSingleValue e (dicom_Tag 0 0x800)
                     (VUInt16 (C_STORE_RQ.CommandDataSetType v));
               e = encodeDataElementWithSingleValue e TagAffectedSOPInstanceUID
                     (VString (C_STORE_RQ.AffectedSOPInstanceUID v));
               e = (if MoveOriginatorApplicationEntityTitle v \<noteq> ''''
                    then encodeDataElementWithSingleValue e (dicom_Tag 0 1030)
                           (VString (MoveOriginatorApplicationEntityTitle v))
                    else e);
               e = (if MoveOriginatorMessageID v \<noteq> 0
                    then encodeDataElementWithSingleValue e (dicom_Tag 0 1031)
                           (VUInt16 (MoveOriginatorMessageID v))
                    else e)
           in Returns e))"

definition decodeC_STORE_RQ :: "'d dicomlib \<Rightarrow> DicomElement list \<Rightarrow> error + C_STORE_RQ" where
  "decodeC_STORE_RQ L elems =
     (case getStringFromElements L elems TagAffectedSOPClassUID of
        (_, Some err) \<Rightarrow> Inl err
      | (sopClass, None) \<Rightarrow>
     (case getUInt16FromElements L elems TagMessageID of
        (_, Some err) \<Rightarrow> Inl err
      | (messageID, None) \<Rightarrow>
     (case getUInt16FromElements L elems TagPriority of
        (_, Some err) \<Rightarrow> Inl err
      | (priority, None) \<Rightarrow>
     (case getUInt16FromElements L elems TagCommandDataSetType of
        (_, Some err) \<Rightarrow> Inl err
      | (dataSetType, None) \<Rightarrow>
     (case getStringFromElements L elems TagAffectedSOPInstanceUID of
        (_, Some err) \<Rightarrow> Inl err
      | (sopInstance, None) \<Rightarrow>
          Inr \<lparr> C_STORE_RQ.AffectedSOPClassUID = sopClass,
                MessageID = messageID,
                Priority = priority,
                C_STORE_RQ.CommandDataSetType = dataSetType,
                C_STORE_RQ.AffectedSOPInstanceUID = sopInstance,
                MoveOriginatorApplicationEntityTitle =
                  fst (getStringFromElements L elems TagMoveOriginatorApplicationEntityTitle),
                MoveOriginatorMessageID =
                  fst (getUInt16FromElements L elems TagMoveOriginatorMessageID) \<rparr>)))))"

subsection \<open>C-STORE-RSP\<close>

record C_STORE_RSP =
  AffectedSOPClassUID :: string
  MessageIDBeingRespondedTo :: uint16
  CommandDataSetType :: uint16
  AffectedSOPInstanceUID :: string
  Status :: uint16

definition CStoreStatusOutOfResources :: uint16 where
  "CStoreStatusOutOfResources = 0xa700"

definition CStoreStatusDataSetDoesNotMatchSOPClass :: uint16 where
  "CStoreStatusDataSetDoesNotMatchSOPClass = 0xa900"

definition CStoreStatusCannotUnderstand :: uint16 where
  "CStoreStatusCannotUnderstand = 0xc000"

text \<open>
  \<^verbatim>\<open>v := &C_STORE_RSP{}\<close> starts from the zero value; the function assigns four of the five
  fields and leaves \<^verbatim>\<open>AffectedSOPInstanceUID\<close> as it is.
\<close>

definition decodeC_STORE_RSP :: "'d dicomlib \<Rightarrow> DicomElement list \<Rightarrow> error + C_STORE_RSP" where
  "decodeC_STORE_RSP L elems =
     (case getStringFromElements L elems TagAffectedSOPClassUID of
        (_, Some err) \<Rightarrow> Inl err
      | (sopClass, None) \<Rightarrow>
     (case getUInt16FromElements L elems TagMessageIDBeingRespondedTo of
        (_, Some err) \<Rightarrow> Inl err
      | (messageID, None) \<Rightarrow>
     (case getUInt16FromElements L elems TagStatus of
        (_, Some err) \<Rightarrow> Inl err
      | (status, None) \<Rightarrow>
     (case getUInt16FromElements L elems TagCommandDataSetType of
        (_, Some err) \<Rightarrow> Inl err
      | (dataSetType, None) \<Rightarrow>
          Inr \<lparr> C_STORE_RSP.AffectedSOPClassUID = sopClass,
                MessageIDBeingRespondedTo = messageID,
                C_STORE_RSP.CommandDataSetType = dataSetType,
                C_STORE_RSP.AffectedSOPInstanceUID = '''',
                Status = status \<rparr>))))"

definition C_STORE_RSP_Encode :: "C_STORE_RSP option \<Rightarrow> Encoder \<Rightarrow> Encoder exec" where
  "C_STORE_RSP_Encode p e =
     (case p of
        None \<Rightarrow> Panics NilPointerDereference
      | Some v \<Rightarrow>
          andThen (doassert (C_STORE_RSP.CommandDataSetType v = 0x101))
            (\<lambda>_.
              let e = encodeDataElementWithSingleValue e TagCommandField (VUInt16 0x8001);
                  e = encodeDataElementWithSingleValue e TagAffectedSOPClassUID
                        (VString (C_STORE_RSP.AffectedSOPClassUID v));
                  e = encodeDataElementWithSingleValue e TagMessageIDBeingRespondedTo
                        (VUInt16 (MessageIDBeingRespondedTo v));
                  e = encodeDataElementWithSingleValue e TagCommandDataSetType
                        (VUInt16 (C_STORE_RSP.CommandDataSetType v));
                  e = encodeDataElementWithSingleValue e TagAffectedSOPInstanceUID
                        (VString (C_STORE_RSP.AffectedSOPInstanceUID v));
                  e = encodeDataElementWithSingleValue e TagStatus (VUInt16 (Status v))
              in Returns e))"

definition C_STORE_RSP_HasData :: "C_STORE_RSP option \<Rightarrow> bool exec" where
  "C_STORE_RSP_HasData p =
     (case p of
        None \<Rightarrow> Panics NilPointerDereference
      | Some v \<Rightarrow>
          andThen (doassert (C_STORE_RSP.CommandDataSetType v = CommandDataSetTypeNull))
            (\<lambda>_. Returns (C_STORE_RSP.CommandDataSetType v \<noteq> CommandDataSetTypeNull)))"

subsection \<open>The interface DIMSEMessage\<close>

text \<open>
  A non-nil value of the interface type \<^verbatim>\<open>DIMSEMessage\<close> holds a \<^verbatim>\<open>*C_STORE_RQ\<close> or a
  \<^verbatim>\<open>*C_STORE_RSP\<close>, and the pointer it holds may itself be nil: Go converts a nil
  \<^verbatim>\<open>*C_STORE_RQ\<close> to an interface value that is not equal to \<^verbatim>\<open>nil\<close>. The nil interface
  is \<open>None\<close> of \<open>DIMSEMessage option\<close>.
\<close>

datatype DIMSEMessage =
    C_STORE_RQ_ptr "C_STORE_RQ option"
  | C_STORE_RSP_ptr "C_STORE_RSP option"

fun Encode :: "DIMSEMessage \<Rightarrow> Encoder \<Rightarrow> Encoder exec" where
  "Encode (C_STORE_RQ_ptr p) e = C_STORE_RQ_Encode p e"
| "Encode (C_STORE_RSP_ptr p) e = C_STORE_RSP_Encode p e"

fun HasData :: "DIMSEMessage \<Rightarrow> bool exec" where
  "HasData (C_STORE_RQ_ptr p) = C_STORE_RQ_HasData p"
| "HasData (C_STORE_RSP_ptr p) = C_STORE_RSP_HasData p"

subsection \<open>Decoding and encoding a command\<close>

text \<open>
  The loop \<^verbatim>\<open>for d.Len() > 0 && d.Error() == nil\<close>. Nothing in dimse.go bounds it: it ends
  when the library's decoder runs out of input or reports an error. \<open>None\<close> is the loop
  that never ends.
\<close>

partial_function (option) readDataElements ::
  "'d dicomlib \<Rightarrow> 'd \<Rightarrow> DicomElement list \<Rightarrow> ('d \<times> DicomElement list) option" where
  "readDataElements L d elems =
     (if Len L d > 0 \<and> Error L d = None
      then (case ReadDataElement L d of (elem, d') \<Rightarrow> readDataElements L d' (elems @ [elem]))
      else Some (d, elems))"

declare readDataElements.simps [code]

text \<open>
  \<^verbatim>\<open>return decodeC_STORE_RQ(elems)\<close> assigns the \<^verbatim>\<open>*C_STORE_RQ\<close> to the result of type
  \<^verbatim>\<open>DIMSEMessage\<close>: when the decoder fails, the message returned with the error is the
  interface value that holds the nil pointer, not the nil interface.
\<close>

definition DecodeDIMSEMessage ::
  "'d dicomlib \<Rightarrow> byte list \<Rightarrow> int \<Rightarrow> (DIMSEMessage option \<times> error option) exec" where
  "DecodeDIMSEMessage L io limit =
     (case readDataElements L (NewDecoder L io limit) [] of
        None \<Rightarrow> Hangs
      | Some (d, elems) \<Rightarrow>
          (case Finish L d of
             Some err \<Rightarrow> Returns (None, Some err)
           | None \<Rightarrow>
               (case getUInt16FromElements L elems TagCommandField of
                  (_, Some err) \<Rightarrow> Returns (None, Some err)
                | (commandField, None) \<Rightarrow>
                    if commandField = 1 then
                      (case decodeC_STORE_RQ L elems of
                         Inl err \<Rightarrow> Returns (Some (C_STORE_RQ_ptr None), Some err)
                       | Inr v \<Rightarrow> Returns (Some (C_STORE_RQ_ptr (Some v)), None))
                    else if commandField = 0x8001 then
                      (case decodeC_STORE_RSP L elems of
                         Inl err \<Rightarrow> Returns (Some (C_STORE_RSP_ptr None), Some err)
                       | Inr v \<Rightarrow> Returns (Some (C_STORE_RSP_ptr (Some v)), None))
                    else Panics (UnknownDIMSECommand commandField))))"

definition encodeDIMSEMessage ::
  "'d dicomlib \<Rightarrow> DIMSEMessage \<Rightarrow> (byte list \<times> error option) exec" where
  "encodeDIMSEMessage L v =
     andThen (Encode v [])
       (\<lambda>subEncoder.
          case EncoderFinish L subEncoder of
            (_, Some err) \<Rightarrow> Returns ([], Some err)
          | (bytes, None) \<Rightarrow>
              (let e = encodeDataElementWithSingleValue [] TagCommandGroupLength
                         (VUInt32 (word_of_nat (length bytes)));
                   e = e @ [EncodeBytes bytes]
               in Returns (EncoderFinish L e)))"

subsection \<open>The command assembler\<close>

text \<open>
  \<^verbatim>\<open>P_DATA_TF\<close> and its items are declared in the PDU file of the package; addPDataTF
  reads these fields of them.
\<close>

record PresentationDataValueItem =
  ContextID :: byte
  Command :: bool
  Last :: bool
  Value :: "byte list"

record P_DATA_TF =
  Items :: "PresentationDataValueItem list"

text \<open>
  Modelled from the spec: \<^verbatim>\<open>contextIDMap\<close> and \<^verbatim>\<open>contextIDToAbstractSyntaxName\<close> are
  declared in another file of the package. The spec's context manager is a "mapping
  contextID \<rightarrow> (abstractSyntaxUID, transferSyntaxUID)"; the lookup gives the abstract
  syntax of a context ID, or an error. addPDataTF only logs that error.
\<close>

type_synonym contextIDMap = "byte \<rightharpoonup> string"

definition contextIDToAbstractSyntaxName :: "contextIDMap \<Rightarrow> byte \<Rightarrow> string \<times> error option" where
  "contextIDToAbstractSyntaxName m contextID =
     (case m contextID of
        Some name \<Rightarrow> (name, None)
      | None \<Rightarrow> ('''', Some (DicomError ''unknown context ID'')))"

record dimseCommandAssembler =
  contextID :: byte
  commandBytes :: "byte list"
  command :: "DIMSEMessage option"
  dataBytes :: "byte list"
  readAllCommand :: bool
  readAllData :: bool

text \<open>The zero value \<^verbatim>\<open>dimseCommandAssembler{}\<close>.\<close>

definition dimseCommandAssembler_zero :: dimseCommandAssembler where
  "dimseCommandAssembler_zero =
     \<lparr> contextID = 0, commandBytes = [], command = None, dataBytes = [],
       readAllCommand = False, readAllData = False \<rparr>"

text \<open>The body of the loop over \<^verbatim>\<open>pdu.Items\<close>, for one item.\<close>

definition addItem ::
  "dimseCommandAssembler \<Rightarrow> PresentationDataValueItem \<Rightarrow> dimseCommandAssembler exec" where
  "addItem a item =
     andThen
       (if contextID a = 0 then Returns (a\<lparr>contextID := ContextID item\<rparr>)
        else if contextID a \<noteq> ContextID item
        then Panics (MixedContext (contextID a) (ContextID item))
        else Returns a)
       (\<lambda>a.
          if Command item then
            (let a = a\<lparr>commandBytes := commandBytes a @ PresentationDataValueItem.Value item\<rparr>
             in if Last item
                then andThen (doassert (\<not> readAllCommand a))
                       (\<lambda>_. Returns (a\<lparr>readAllCommand := True\<rparr>))
                else Returns a)
          else
            (let a = a\<lparr>dataBytes := dataBytes a @ PresentationDataValueItem.Value item\<rparr>
             in if Last item
                then andThen (doassert (\<not> readAllData a))
                       (\<lambda>_. Returns (a\<lparr>readAllData := True\<rparr>))
                else Returns a))"

fun addItems ::
  "dimseCommandAssembler \<Rightarrow> PresentationDataValueItem list \<Rightarrow> dimseCommandAssembler exec" where
  "addItems a [] = Returns a"
| "addItems a (item # items) = andThen (addItem a item) (\<lambda>a. addItems a items)"

text \<open>
  addPDataTF changes the assembler in place and returns four values. The result here is
  the assembler after the call together with the four values: the syntax name, the
  command (\<open>None\<close> for \<^verbatim>\<open>nil\<close>), the data bytes and the error (\<open>None\<close> for \<^verbatim>\<open>nil\<close>).
  Calling \<^verbatim>\<open>HasData\<close> on the nil interface is a nil pointer dereference.
\<close>

type_synonym addPDataTF_result =
  "dimseCommandAssembler \<times> string \<times> DIMSEMessage option \<times> byte list \<times> error option"

definition addPDataTF ::
  "'d dicomlib \<Rightarrow> dimseCommandAssembler \<Rightarrow> P_DATA_TF \<Rightarrow> contextIDMap \<Rightarrow> addPDataTF_result exec" where
  "addPDataTF L a pdu contextIDMap =
     andThen (addItems a (Items pdu))
       (\<lambda>a.
          if \<not> readAllCommand a then Returns (a, '''', None, [], None)
          else
            andThen
              (if command a = None
               then andThen
                      (DecodeDIMSEMessage L (commandBytes a) (int (length (commandBytes a))))
                      (\<lambda>(c, err). Returns (a\<lparr>command := c\<rparr>, err))
               else Returns (a, None))
              (\<lambda>(a, err).
                 case err of
                   Some err \<Rightarrow> Returns (a, '''', None, [], Some err)
                 | None \<Rightarrow>
                     (case command a of
                        None \<Rightarrow> Panics NilPointerDereference
                      | Some c \<Rightarrow>
                          andThen (HasData c)
                            (\<lambda>hasData.
                               if hasData \<and> \<not> readAllData a
                               then Returns (a, '''', None, [], None)
                               else
                                 (let (syntaxName, err) =
                                        contextIDToAbstractSyntaxName contextIDMap (contextID a)
                                  in Returns (dimseCommandAssembler_zero,
                                              syntaxName, Some c, dataBytes a, None))))))"

section \<open>Successive calls of addPDataTF\<close>

text \<open>
  The bytes that the command PDVs, and the data PDVs, of a list of items carry, in the
  order of the items.
\<close>

definition commandValues :: "PresentationDataValueItem list \<Rightarrow> byte list" where
  "commandValues items = concat (map PresentationDataValueItem.Value (filter Command items))"

definition dataValues :: "PresentationDataValueItem list \<Rightarrow> byte list" where
  "dataValues items =
     concat (map PresentationDataValueItem.Value (filter (\<lambda>item. \<not> Command item) items))"

definition allItems :: "P_DATA_TF list \<Rightarrow> PresentationDataValueItem list" where
  "allItems pdus = concat (map Items pdus)"

text \<open>
  No command PDV comes after a command PDV that carries \<^verbatim>\<open>Last\<close>: the fragments of the
  command end with the one marked as the last.
\<close>

fun noCommandAfterLast :: "PresentationDataValueItem list \<Rightarrow> bool" where
  "noCommandAfterLast [] = True"
| "noCommandAfterLast (item # items) =
     (if Command item \<and> Last item then filter Command items = []
      else noCommandAfterLast items)"

text \<open>
  The receiver hands every P-DATA-TF to addPDataTF, on the same assembler, until a call
  returns a command. \<open>assemble\<close> is that sequence of calls: it gives the assembler after the
  last call made, what that call emitted (syntax name, command, data bytes) if it emitted,
  and the PDUs that were not consumed. The errors of the calls before are dropped, as they
  are by a caller that goes on.
\<close>

fun assemble ::
  "'d dicomlib \<Rightarrow> dimseCommandAssembler \<Rightarrow> P_DATA_TF list \<Rightarrow> contextIDMap \<Rightarrow>
     (dimseCommandAssembler \<times> (string \<times> DIMSEMessage \<times> byte list) option \<times> P_DATA_TF list) exec"
  where
  "assemble L a [] m = Returns (a, None, [])"
| "assemble L a (pdu # pdus) m =
     andThen (addPDataTF L a pdu m)
       (\<lambda>(a', syntaxName, c, data, err).
          case c of
            Some msg \<Rightarrow> Returns (a', Some (syntaxName, msg, data), pdus)
          | None \<Rightarrow> assemble L a' pdus m)"

text \<open>Decoding a byte list whole, as addPDataTF does with the command bytes.\<close>

abbreviation decodeAll ::
  "'d dicomlib \<Rightarrow> byte list \<Rightarrow> (DIMSEMessage option \<times> error option) exec" where
  "decodeAll L bytes \<equiv> DecodeDIMSEMessage L bytes (int (length bytes))"

section \<open>A reference instance of the element library\<close>

text \<open>
  An instance of the library parameter for evaluating the functions above on concrete
  inputs: Implicit VR Little Endian as DICOM PS3.5 defines it. An element is the group
  and the element number of its tag (two bytes each, low byte first), the length of its
  value in bytes (four bytes, low byte first) and the value, padded to an even length.
  The representation of a value is looked up by tag in the command dictionary of PS3.7.
  The encoder refuses a tag that is not in the dictionary; the decoder keeps the value of
  such a tag as raw bytes, reads a value of length zero as no value at all, and reads at
  most \<open>limit\<close> bytes: when the limit is beyond the end of the input, it runs into the end.
\<close>

unbundle bit_operations_syntax

definition put16 :: "uint16 \<Rightarrow> byte list" where
  "put16 w = [ucast w, ucast (drop_bit 8 w)]"

definition put32 :: "uint32 \<Rightarrow> byte list" where
  "put32 w = [ucast w, ucast (drop_bit 8 w), ucast (drop_bit 16 w), ucast (drop_bit 24 w)]"

definition get16 :: "byte \<Rightarrow> byte \<Rightarrow> uint16" where
  "get16 b0 b1 = ucast b0 OR push_bit 8 (ucast b1)"

definition get32 :: "byte \<Rightarrow> byte \<Rightarrow> byte \<Rightarrow> byte \<Rightarrow> uint32" where
  "get32 b0 b1 b2 b3 =
     ucast b0 OR push_bit 8 (ucast b1) OR push_bit 16 (ucast b2) OR push_bit 24 (ucast b3)"

definition bytesOfString :: "string \<Rightarrow> byte list" where
  "bytesOfString s = map (\<lambda>c. word_of_nat (of_char c)) s"

definition stringOfBytes :: "byte list \<Rightarrow> string" where
  "stringOfBytes bs = map (\<lambda>b. char_of (unat b)) bs"

datatype VR = VR_US | VR_UL | VR_UI | VR_AE | VR_UN

definition lookupVR :: "Tag \<Rightarrow> VR" where
  "lookupVR tag =
     (if tag = dicom_Tag 0 0 then VR_UL
      else if tag = dicom_Tag 0 0x0002 then VR_UI
      else if tag = dicom_Tag 0 0x0100 then VR_US
      else if tag = dicom_Tag 0 0x0110 then VR_US
      else if tag = dicom_Tag 0 0x0120 then VR_US
      else if tag = dicom_Tag 0 0x0700 then VR_US
      else if tag = dicom_Tag 0 0x0800 then VR_US
      else if tag = dicom_Tag 0 0x0900 then VR_US
      else if tag = dicom_Tag 0 0x1000 then VR_UI
      else if tag = dicom_Tag 0 0x1030 then VR_AE
      else if tag = dicom_Tag 0 0x1031 then VR_US
      else VR_UN)"

fun putValue :: "iface \<Rightarrow> byte list" where
  "putValue (VString s) = bytesOfString s"
| "putValue (VUInt16 w) = put16 w"
| "putValue (VUInt32 w) = put32 w"
| "putValue (VBytes bs) = bs"

definition padEven :: "byte \<Rightarrow> byte list \<Rightarrow> byte list" where
  "padEven pad bs = (if even (length bs) then bs else bs @ [pad])"

definition putElement :: "Tag \<Rightarrow> iface list \<Rightarrow> byte list" where
  "putElement tag values =
     (let v = padEven (if lookupVR tag = VR_UI then 0 else 0x20) (concat (map putValue values))
      in put16 (Group tag) @ put16 (Element tag) @ put32 (word_of_nat (length v)) @ v)"

fun putOp :: "enc_op \<Rightarrow> byte list" where
  "putOp (EncodeDataElement tag values) = putElement tag values"
| "putOp (EncodeBytes bs) = bs"

fun knownOp :: "enc_op \<Rightarrow> bool" where
  "knownOp (EncodeDataElement tag values) = (lookupVR tag \<noteq> VR_UN)"
| "knownOp (EncodeBytes bs) = True"

definition finishEncoder :: "Encoder \<Rightarrow> byte list \<times> error option" where
  "finishEncoder ops =
     (if list_all knownOp ops then (concat (map putOp ops), None)
      else ([], Some (DicomError ''tag not in the dictionary'')))"

fun getUInt16s :: "byte list \<Rightarrow> iface list" where
  "getUInt16s (b0 # b1 # bs) = VUInt16 (get16 b0 b1) # getUInt16s bs"
| "getUInt16s bs = []"

fun getUInt32s :: "byte list \<Rightarrow> iface list" where
  "getUInt32s (b0 # b1 # b2 # b3 # bs) = VUInt32 (get32 b0 b1 b2 b3) # getUInt32s bs"
| "getUInt32s bs = []"

definition trimRight :: "byte \<Rightarrow> byte list \<Rightarrow> byte list" where
  "trimRight pad bs = rev (dropWhile (\<lambda>b. b = pad) (rev bs))"

fun getValue :: "VR \<Rightarrow> byte list \<Rightarrow> iface list" where
  "getValue VR_US bs = getUInt16s bs"
| "getValue VR_UL bs = getUInt32s bs"
| "getValue VR_UI bs = (if bs = [] then [] else [VString (stringOfBytes (trimRight 0 bs))])"
| "getValue VR_AE bs = (if bs = [] then [] else [VString (stringOfBytes (trimRight 0x20 bs))])"
| "getValue VR_UN bs = [VBytes bs]"

text \<open>
  The state of the reference decoder: the bytes not yet read, the number of bytes it may
  still read, and the first error.
\<close>

type_synonym Decoder = "byte list \<times> int \<times> error option"

definition emptyElement :: DicomElement where
  "emptyElement = \<lparr> Tag = dicom_Tag 0 0, DicomElement.Value = [] \<rparr>"

definition endOfInput :: "Decoder \<Rightarrow> DicomElement \<times> Decoder" where
  "endOfInput d =
     (emptyElement, (fst d, fst (snd d), Some (DicomError ''unexpected end of input'')))"

fun getElement :: "Decoder \<Rightarrow> DicomElement \<times> Decoder" where
  "getElement (g0 # g1 # e0 # e1 # n0 # n1 # n2 # n3 # bs, limit, err) =
     (let tag = dicom_Tag (get16 g0 g1) (get16 e0 e1); n = unat (get32 n0 n1 n2 n3)
      in if limit < 8 + int n
         then endOfInput (g0 # g1 # e0 # e1 # n0 # n1 # n2 # n3 # bs, limit, err)
         else if length bs < n
         then endOfInput (g0 # g1 # e0 # e1 # n0 # n1 # n2 # n3 # bs, limit, err)
         else (\<lparr> Tag = tag, DicomElement.Value = getValue (lookupVR tag) (take n bs) \<rparr>,
               (drop n bs, limit - 8 - int n, err)))"
| "getElement d = endOfInput d"

definition implicitLE :: "Decoder dicomlib" where
  "implicitLE =
     \<lparr> NewDecoder = (\<lambda>io limit. (io, limit, None)),
       Len = (\<lambda>d. fst (snd d)),
       Error = (\<lambda>d. snd (snd d)),
       ReadDataElement = getElement,
       Finish = (\<lambda>d. snd (snd d)),
       GetString = (\<lambda>e. case DicomElement.Value e of
                           [VString s] \<Rightarrow> (s, None)
                         | _ \<Rightarrow> ('''', Some (DicomError ''not a single string''))),
       GetUInt32 = (\<lambda>e. case DicomElement.Value e of
                           [VUInt32 w] \<Rightarrow> (w, None)
                         | _ \<Rightarrow> (0, Some (DicomError ''not a single uint32''))),
       GetUInt16 = (\<lambda>e. case DicomElement.Value e of
                           [VUInt16 w] \<Rightarrow> (w, None)
                         | _ \<Rightarrow> (0, Some (DicomError ''not a single uint16''))),
       EncoderFinish = finishEncoder \<rparr>"

text \<open>The bytes of a command that encoded without error, and nothing otherwise.\<close>

fun encodedBytes :: "(byte list \<times> error option) exec \<Rightarrow> byte list" where
  "encodedBytes (Returns (bytes, None)) = bytes"
| "encodedBytes r = []"

section \<open>Concrete messages for evaluation\<close>

definition storageSOPClass :: string where
  "storageSOPClass = ''1.2.840.10008.5.1.4.1.1.7''"

definition exampleRSP :: C_STORE_RSP where
  "exampleRSP =
     \<lparr> C_STORE_RSP.AffectedSOPClassUID = storageSOPClass,
       MessageIDBeingRespondedTo = 7,
       C_STORE_RSP.CommandDataSetType = 0x101,
       C_STORE_RSP.AffectedSOPInstanceUID = ''1.2.3'',
       Status = 0 \<rparr>"

definition exampleRQ :: C_STORE_RQ where
  "exampleRQ =
     \<lparr> C_STORE_RQ.AffectedSOPClassUID = storageSOPClass,
       MessageID = 7,
       Priority = 0,
       C_STORE_RQ.CommandDataSetType = 1,
       C_STORE_RQ.AffectedSOPInstanceUID = ''1.2.3'',
       MoveOriginatorApplicationEntityTitle = '''',
       MoveOriginatorMessageID = 0 \<rparr>"

definition exampleContexts :: contextIDMap where
  "exampleContexts = [1 \<mapsto> storageSOPClass]"

definition commandPDV :: "bool \<Rightarrow> byte list \<Rightarrow> PresentationDataValueItem" where
  "commandPDV isLast bytes = \<lparr> ContextID = 1, Command = True, Last = isLast, Value = bytes \<rparr>"

definition dataPDV :: "bool \<Rightarrow> byte list \<Rightarrow> PresentationDataValueItem" where
  "dataPDV isLast bytes = \<lparr> ContextID = 1, Command = False, Last = isLast, Value = bytes \<rparr>"

definition exampleMoveRQ :: C_STORE_RQ where
  "exampleMoveRQ =
     exampleRQ \<lparr> MoveOriginatorApplicationEntityTitle := ''STORESCU'',
                 MoveOriginatorMessageID := 5 \<rparr>"

text \<open>
  The elements of a C-STORE-RSP without \<^verbatim>\<open>AffectedSOPInstanceUID\<close>, as bytes: command
  field, affected SOP class, message ID being responded to, data set type, status.
\<close>

definition rspWithoutInstanceUID :: "byte list" where
  "rspWithoutInstanceUID =
     concat (map putOp
       [EncodeDataElement TagCommandField [VUInt16 0x8001],
        EncodeDataElement TagAffectedSOPClassUID [VString storageSOPClass],
        EncodeDataElement TagMessageIDBeingRespondedTo [VUInt16 7],
        EncodeDataElement TagCommandDataSetType [VUInt16 0x101],
        EncodeDataElement TagStatus [VUInt16 0]])"

definition exampleNullRQ :: C_STORE_RQ where
  "exampleNullRQ = exampleRQ \<lparr> C_STORE_RQ.CommandDataSetType := 0x101 \<rparr>"

text \<open>
  The elements of a C-STORE-RQ that stops after the affected SOP class, as bytes: the
  message ID and the elements after it are missing.
\<close>

definition rqWithoutMessageID :: "byte list" where
  "rqWithoutMessageID =
     concat (map putOp
       [EncodeDataElement TagCommandField [VUInt16 1],
        EncodeDataElement TagAffectedSOPClassUID [VString storageSOPClass]])"

text \<open>One more element, (0000,1030) with the value STORESCU, as bytes.\<close>

definition moveOriginatorElement :: "byte list" where
  "moveOriginatorElement =
     putElement TagMoveOriginatorApplicationEntityTitle [VString ''STORESCU'']"

text \<open>The command bytes of \<open>exampleRQ\<close>, and P-DATA-TF PDUs that carry them and four data bytes.\<close>

definition exampleRQBytes :: "byte list" where
  "exampleRQBytes = encodedBytes (encodeDIMSEMessage implicitLE (C_STORE_RQ_ptr (Some exampleRQ)))"

definition commandPDU :: P_DATA_TF where
  "commandPDU = \<lparr> Items = [commandPDV True exampleRQBytes] \<rparr>"

definition dataPDU :: P_DATA_TF where
  "dataPDU = \<lparr> Items = [dataPDV False [1, 2], dataPDV True [3, 4]] \<rparr>"

text \<open>A PDU with a command PDV after the last command PDV, followed by the data.\<close>

definition lateCommandPDU :: P_DATA_TF where
  "lateCommandPDU = \<lparr> Items = [commandPDV False moveOriginatorElement, dataPDV True [1, 2, 3, 4]] \<rparr>"

text \<open>
  The command bytes of \<open>exampleRSP\<close>; the elements of a C-STORE-RSP with the data set type
  0x0101 and without the status, as bytes; and the status element, as bytes.
\<close>

definition exampleRSPBytes :: "byte list" where
  "exampleRSPBytes =
     encodedBytes (encodeDIMSEMessage implicitLE (C_STORE_RSP_ptr (Some exampleRSP)))"

definition rspWithoutStatus :: "byte list" where
  "rspWithoutStatus =
     concat (map putOp
       [EncodeDataElement TagCommandField [VUInt16 0x8001],
        EncodeDataElement TagAffectedSOPClassUID [VString storageSOPClass],
        EncodeDataElement TagMessageIDBeingRespondedTo [VUInt16 7],
        EncodeDataElement TagCommandDataSetType [VUInt16 0x101]])"

definition statusElement :: "byte list" where
  "statusElement = putElement TagStatus [VUInt16 0]"

section \<open>The sample server (sampleserver/sampleserver.go)\<close>

text \<open>
  The functions of the dicom library that the matching and the C-MOVE handler call, as
  parameters; the data sets are of an arbitrary type \<open>'ds\<close>. \<^verbatim>\<open>dicom.Query\<close> returns
  whether the data set matches the filter, the element that matched (or nil) and an
  error. A \<^verbatim>\<open>dicom.Element\<close> is an element as above: the server reads its tag only.
\<close>

record 'ds storelib =
  Query :: "'ds \<Rightarrow> DicomElement \<Rightarrow> bool \<times> DicomElement option \<times> error option"
  NewElement :: "Tag \<Rightarrow> error + DicomElement"
  ReadDataSetFromFile :: "string \<Rightarrow> 'ds option \<times> error option"

text \<open>
  The server holds a Go map from paths to data sets. A \<^verbatim>\<open>range\<close> over a map visits the
  entries in an order that Go leaves open: the map is the list of its entries in the order
  of the visit, and what is proved holds for every such list. The mutex is left out.
\<close>

record 'ds server =
  datasets :: "(string \<times> 'ds) list"
  pathSeq :: "32 word"

record filterMatch =
  path :: string
  elems :: "DicomElement list"

text \<open>
  Modelled from the spec: \<^verbatim>\<open>netdicom.CMoveResult\<close> is declared in another file; its
  fields are, in the words of the spec, "{Remaining, Path, DataSet, Err}".
\<close>

record 'ds CMoveResult =
  Remaining :: int
  Path :: string
  DataSet :: "'ds option"
  Err :: "error option"

text \<open>
  The loop over the filters, for one data set: an error ends findMatchingFiles, \<open>None\<close>
  is a filter that missed, and otherwise the result is the list of matched elements.
\<close>

fun matchFilters ::
  "'ds storelib \<Rightarrow> 'ds \<Rightarrow> DicomElement list \<Rightarrow> DicomElement list \<Rightarrow>
     error + DicomElement list option" where
  "matchFilters P ds [] es = Inr (Some es)"
| "matchFilters P ds (flt # flts) es =
     (case Query P ds flt of
        (ok, elem, Some err) \<Rightarrow> Inl err
      | (ok, elem, None) \<Rightarrow>
          if \<not> ok then Inr None
          else (case elem of
                  Some e \<Rightarrow> matchFilters P ds flts (es @ [e])
                | None \<Rightarrow>
                    (case NewElement P (Tag flt) of
                       Inl err \<Rightarrow> Inl err
                     | Inr e \<Rightarrow> matchFilters P ds flts (es @ [e]))))"

fun findMatchingFilesLoop ::
  "'ds storelib \<Rightarrow> (string \<times> 'ds) list \<Rightarrow> DicomElement list \<Rightarrow> filterMatch list \<Rightarrow>
     (filterMatch list \<times> error option) exec" where
  "findMatchingFilesLoop P [] filters matches = Returns (matches, None)"
| "findMatchingFilesLoop P ((p, ds) # rest) filters matches =
     (case matchFilters P ds filters [] of
        Inl err \<Rightarrow> Returns (matches, Some err)
      | Inr None \<Rightarrow> findMatchingFilesLoop P rest filters matches
      | Inr (Some es) \<Rightarrow>
          if length es = 0 then Panics (MatchWithoutElements p)
          else findMatchingFilesLoop P rest filters (matches @ [\<lparr> path = p, elems = es \<rparr>]))"

definition findMatchingFiles ::
  "'ds storelib \<Rightarrow> 'ds server \<Rightarrow> DicomElement list \<Rightarrow> (filterMatch list \<times> error option) exec"
  where
  "findMatchingFiles P ss filters = findMatchingFilesLoop P (datasets ss) filters []"

text \<open>
  What it is for the filter of a request to match a data set, in the words of the comment
  on findMatchingFiles ("datasets and their elements that match filters"): the query of
  the data set by each element of the filter says that it matches.
\<close>

fun filtersMatch :: "'ds storelib \<Rightarrow> 'ds \<Rightarrow> DicomElement list \<Rightarrow> bool" where
  "filtersMatch P ds [] = True"
| "filtersMatch P ds (flt # flts) = (fst (Query P ds flt) \<and> filtersMatch P ds flts)"

definition matchingDatasets ::
  "'ds storelib \<Rightarrow> 'ds server \<Rightarrow> DicomElement list \<Rightarrow> (string \<times> 'ds) list" where
  "matchingDatasets P ss filters =
     filter (\<lambda>entry. filtersMatch P (snd entry) filters) (datasets ss)"

text \<open>
  The loop \<^verbatim>\<open>for i, match := range matches\<close> of the goroutine that onCMoveOrCGet starts:
  the responses it sends, from index \<open>i\<close> on, with \<open>n\<close> for \<^verbatim>\<open>len(matches)\<close>.
\<close>

fun moveResponses :: "'ds storelib \<Rightarrow> nat \<Rightarrow> nat \<Rightarrow> filterMatch list \<Rightarrow> 'ds CMoveResult list" where
  "moveResponses P n i [] = []"
| "moveResponses P n i (m # rest) =
     (case ReadDataSetFromFile P (path m) of
        (ds, err) \<Rightarrow>
          (let resp = \<lparr> Remaining = int n - int i - 1, Path = path m,
                         DataSet = None, Err = None \<rparr>;
               resp = (case err of
                         Some e \<Rightarrow> resp\<lparr> Err := Some e \<rparr>
                       | None \<Rightarrow> resp\<lparr> DataSet := ds \<rparr>)
           in resp # moveResponses P n (Suc i) rest))"

text \<open>
  onCMoveOrCGet returns a channel, and a goroutine sends the responses on it and closes it.
  The result here is the sequence of values sent before the channel is closed.
\<close>

definition onCMoveOrCGet ::
  "'ds storelib \<Rightarrow> 'ds server \<Rightarrow> string \<Rightarrow> string \<Rightarrow> DicomElement list \<Rightarrow>
     'ds CMoveResult list exec" where
  "onCMoveOrCGet P ss transferSyntaxUID sopClassUID filters =
     andThen (findMatchingFiles P ss filters)
       (\<lambda>(matches, err).
          case err of
            Some e \<Rightarrow> Returns [\<lparr> Remaining = 0, Path = '''', DataSet = None, Err = Some e \<rparr>]
          | None \<Rightarrow> Returns (moveResponses P (length matches) 0 matches))"

text \<open>
  A store for evaluation: a data set is a list of elements, a filter matches a data set
  that has an element with the filter's tag and, unless the filter has no value, the
  filter's value; the query fails on an element that holds raw bytes. Two files hold one
  patient each; a third one, of the second server, holds raw bytes for the name.
\<close>

definition TagPatientName :: Tag where
  "TagPatientName = dicom_Tag 0x0010 0x0010"

definition exampleFiles :: "(string \<times> DicomElement list) list" where
  "exampleFiles =
     [(''a.dcm'', [\<lparr> Tag = TagPatientName, DicomElement.Value = [VString ''Doe^John''] \<rparr>]),
      (''b.dcm'', [\<lparr> Tag = TagPatientName, DicomElement.Value = [VString ''Roe^Jane''] \<rparr>])]"

fun rawBytes :: "iface list \<Rightarrow> bool" where
  "rawBytes (VBytes bs # values) = True"
| "rawBytes values = False"

definition exampleStore :: "DicomElement list storelib" where
  "exampleStore =
     \<lparr> Query = (\<lambda>ds flt.
         case find (\<lambda>e. Tag e = Tag flt) ds of
           None \<Rightarrow> (False, None, None)
         | Some e \<Rightarrow>
             if rawBytes (DicomElement.Value e)
             then (False, None, Some (DicomError ''cannot compare raw bytes''))
             else if DicomElement.Value flt = [] then (True, Some e, None)
             else if DicomElement.Value e = DicomElement.Value flt then (True, Some e, None)
             else (False, None, None)),
       NewElement = (\<lambda>tag. Inr \<lparr> Tag = tag, DicomElement.Value = [] \<rparr>),
       ReadDataSetFromFile = (\<lambda>p.
         case map_of exampleFiles p of
           Some ds \<Rightarrow> (Some ds, None)
         | None \<Rightarrow> (None, Some (DicomError ''no such file''))) \<rparr>"

definition exampleServer :: "DicomElement list server" where
  "exampleServer = \<lparr> datasets = exampleFiles, pathSeq = 0 \<rparr>"

definition brokenServer :: "DicomElement list server" where
  "brokenServer =
     \<lparr> datasets =
         exampleFiles @
         [(''c.dcm'', [\<lparr> Tag = TagPatientName, DicomElement.Value = [VBytes [0]] \<rparr>])],
       pathSeq = 0 \<rparr>"

definition anyPatient :: "DicomElement list" where
  "anyPatient = [\<lparr> Tag = TagPatientName, DicomElement.Value = [] \<rparr>]"

section \<open>Properties\<close>

lemmas Tag_defs =
  TagCommandGroupLength_def TagCommandField_def TagAffectedSOPClassUID_def
  TagMessageID_def TagMessageIDBeingRespondedTo_def TagPriority_def
  TagCommandDataSetType_def TagStatus_def TagAffectedSOPInstanceUID_def
  TagMoveOriginatorApplicationEntityTitle_def TagMoveOriginatorMessageID_def

subsection \<open>Sequencing\<close>

lemma andThen_Returns_iff:
  "andThen x f = Returns y \<longleftrightarrow> (\<exists>z. x = Returns z \<and> f z = Returns y)"
  by (cases x) auto

lemma doassert_Returns_iff: "doassert b = Returns u \<longleftrightarrow> b"
  by (simp add: doassert_def)

subsection \<open>Emitting resets the assembler\<close>

text \<open>
  C8. Whenever addPDataTF returns a command that is not nil, the assembler it leaves behind
  is the empty one: context ID 0, no command bytes, no data bytes, no decoded command, and
  both completion flags false.
\<close>

theorem addPDataTF_emit_resets:
  assumes "addPDataTF L a pdu m = Returns (a', syntaxName, Some c, data, err)"
  shows "contextID a' = 0 \<and> commandBytes a' = [] \<and> dataBytes a' = [] \<and> command a' = None
         \<and> \<not> readAllCommand a' \<and> \<not> readAllData a'"
proof -
  have "a' = dimseCommandAssembler_zero"
    using assms unfolding addPDataTF_def
    by (auto simp: andThen_Returns_iff split: if_splits option.splits prod.splits)
  then show ?thesis
    by (simp add: dimseCommandAssembler_zero_def)
qed

theorem addPDataTF_emit_resets_witness:
  "addPDataTF implicitLE dimseCommandAssembler_zero
     \<lparr> Items = [commandPDV True
                 (encodedBytes (encodeDIMSEMessage implicitLE (C_STORE_RSP_ptr (Some exampleRSP))))] \<rparr>
     exampleContexts
   = Returns (dimseCommandAssembler_zero, storageSOPClass,
              Some (C_STORE_RSP_ptr
                (Some (exampleRSP\<lparr> C_STORE_RSP.AffectedSOPInstanceUID := '''' \<rparr>))),
              [], None)
   \<and> contextID dimseCommandAssembler_zero = 0
   \<and> commandBytes dimseCommandAssembler_zero = []
   \<and> dataBytes dimseCommandAssembler_zero = []
   \<and> command dimseCommandAssembler_zero = None
   \<and> \<not> readAllCommand dimseCommandAssembler_zero
   \<and> \<not> readAllData dimseCommandAssembler_zero"
proof -
  have run: "addPDataTF implicitLE dimseCommandAssembler_zero
      \<lparr> Items = [commandPDV True
                  (encodedBytes (encodeDIMSEMessage implicitLE (C_STORE_RSP_ptr (Some exampleRSP))))] \<rparr>
      exampleContexts
    = Returns (dimseCommandAssembler_zero, storageSOPClass,
               Some (C_STORE_RSP_ptr
                 (Some (exampleRSP\<lparr> C_STORE_RSP.AffectedSOPInstanceUID := '''' \<rparr>))),
               [], None)"
    by code_simp
  from addPDataTF_emit_resets [OF run] run show ?thesis
    by simp
qed

subsection \<open>An unknown command field\<close>

lemma DecodeDIMSEMessage_unknown_command:
  assumes "readDataElements L (NewDecoder L io limit) [] = Some (d, elements)"
    and "Finish L d = None"
    and "getUInt16FromElements L elements TagCommandField = (c, None)"
    and "c \<noteq> 1" and "c \<noteq> 0x8001"
  shows "DecodeDIMSEMessage L io limit = Panics (UnknownDIMSECommand c)"
  using assms by (simp add: DecodeDIMSEMessage_def)

text \<open>
  C2. The claim is that DecodeDIMSEMessage returns an error, and does not end the
  process, when the command field is neither 1 nor 0x8001. The code does not: after the
  \<^verbatim>\<open>switch\<close> it calls \<^verbatim>\<open>log.Panicf\<close>. On the single element (0000,0100) with the value
  0x0020, the command field of a C-FIND-RQ, the call panics.
\<close>

theorem DecodeDIMSEMessage_unknown_command_panics:
  "DecodeDIMSEMessage implicitLE [0, 0, 0, 1, 2, 0, 0, 0, 0x20, 0] 10
     = Panics (UnknownDIMSECommand 0x20)"
  by code_simp

subsection \<open>Mixed context IDs\<close>

lemma addItem_contextID:
  "addItem a item = Returns a' \<Longrightarrow> contextID a \<noteq> 0 \<Longrightarrow> contextID a' = contextID a"
  by (auto simp: addItem_def andThen_Returns_iff Let_def doassert_def split: if_splits)

lemma addItems_mixed:
  "contextID a \<noteq> 0 \<Longrightarrow> item \<in> set items \<Longrightarrow> ContextID item \<noteq> contextID a \<Longrightarrow>
     \<exists>p. addItems a items = Panics p"
proof (induction items arbitrary: a)
  case Nil
  then show ?case by simp
next
  case (Cons x xs)
  show ?case
  proof (cases "addItem a x")
    case (Returns a')
    with Cons.prems have "ContextID x = contextID a"
      by (auto simp: addItem_def split: if_splits)
    with Cons.prems have "item \<in> set xs" by auto
    moreover from Returns Cons.prems have "contextID a' = contextID a"
      by (simp add: addItem_contextID)
    ultimately show ?thesis
      using Cons.IH [of a'] Cons.prems Returns by simp
  next
    case (Panics p)
    then show ?thesis by simp
  next
    case Hangs
    then show ?thesis
      by (auto simp: addItem_def doassert_def Let_def split: if_splits)
  qed
qed

lemma addPDataTF_mixed_context_never_returns:
  assumes "contextID a \<noteq> 0" and "item \<in> set (Items pdu)" and "ContextID item \<noteq> contextID a"
  shows "\<exists>p. addPDataTF L a pdu m = Panics p"
  using addItems_mixed [OF assms] by (auto simp: addPDataTF_def)

text \<open>
  C3. The claim is that addPDataTF reports an error when a PDV carries a context ID other
  than the one the assembler has adopted. The code does not return there: it calls
  \<^verbatim>\<open>log.Panicf\<close>, under the comment "don't panic here". With context 1 adopted and a PDV
  of context 3, the call panics.
\<close>

theorem addPDataTF_mixed_context_panics:
  "addPDataTF implicitLE
     (dimseCommandAssembler_zero \<lparr> contextID := 1, commandBytes := [0, 0] \<rparr>)
     \<lparr> Items = [\<lparr> ContextID = 3, Command = True, Last = False, Value = [0, 0] \<rparr>] \<rparr>
     exampleContexts
   = Panics (MixedContext 1 3)"
  by code_simp

subsection \<open>The tags of the move originator\<close>

lemma C_STORE_RQ_Encode_never_canonical:
  assumes "C_STORE_RQ_Encode (Some v) [] = Returns e"
  shows "EncodeDataElement TagMoveOriginatorApplicationEntityTitle vs \<notin> set e"
    and "EncodeDataElement TagMoveOriginatorMessageID vs \<notin> set e"
  using assms
  by (auto simp: C_STORE_RQ_Encode_def encodeDataElementWithSingleValue_def Let_def Tag_defs
           split: if_splits)

lemma C_STORE_RQ_Encode_decimal_tags:
  assumes "C_STORE_RQ_Encode (Some v) [] = Returns e"
    and "MoveOriginatorApplicationEntityTitle v \<noteq> ''''"
    and "MoveOriginatorMessageID v \<noteq> 0"
  shows "EncodeDataElement (dicom_Tag 0 0x0406)
           [VString (MoveOriginatorApplicationEntityTitle v)] \<in> set e"
    and "EncodeDataElement (dicom_Tag 0 0x0407)
           [VUInt16 (MoveOriginatorMessageID v)] \<in> set e"
  using assms
  by (auto simp: C_STORE_RQ_Encode_def encodeDataElementWithSingleValue_def Let_def)

text \<open>
  C5. The claim is that Encode writes the move originator's title and message ID under
  the tags (0000,1030) and (0000,1031). The code writes them under \<^verbatim>\<open>dicom.Tag{0, 1030}\<close>
  and \<^verbatim>\<open>dicom.Tag{0, 1031}\<close>, decimal: the tags (0000,0406) and (0000,0407). These are the
  writes that Encode requests for a request with the title STORESCU and the message ID 5.
\<close>

theorem C_STORE_RQ_Encode_move_originator_tags:
  "C_STORE_RQ_Encode (Some exampleMoveRQ) []
   = Returns
       [EncodeDataElement (dicom_Tag 0 0x0100) [VUInt16 1],
        EncodeDataElement (dicom_Tag 0 0x0002) [VString storageSOPClass],
        EncodeDataElement (dicom_Tag 0 0x0110) [VUInt16 7],
        EncodeDataElement (dicom_Tag 0 0x0700) [VUInt16 0],
        EncodeDataElement (dicom_Tag 0 0x0800) [VUInt16 1],
        EncodeDataElement (dicom_Tag 0 0x1000) [VString ''1.2.3''],
        EncodeDataElement (dicom_Tag 0 0x0406) [VString ''STORESCU''],
        EncodeDataElement (dicom_Tag 0 0x0407) [VUInt16 5]]"
  by code_simp

text \<open>With the reference library the request does not encode: the encoder refuses the two tags.\<close>

lemma exampleMoveRQ_does_not_encode:
  "encodeDIMSEMessage implicitLE (C_STORE_RQ_ptr (Some exampleMoveRQ))
   = Returns ([], Some (DicomError ''tag not in the dictionary''))"
  by code_simp

subsection \<open>The affected SOP instance UID of a response\<close>

lemma findElementWithTag_filter:
  "t \<noteq> u \<Longrightarrow>
     findElementWithTag (filter (\<lambda>e. Tag e \<noteq> u) elements) t = findElementWithTag elements t"
  by (induction elements) auto

lemma getFromElements_filter:
  assumes "t \<noteq> u"
  shows "getStringFromElements L (filter (\<lambda>e. Tag e \<noteq> u) elements) t
           = getStringFromElements L elements t"
    and "getUInt16FromElements L (filter (\<lambda>e. Tag e \<noteq> u) elements) t
           = getUInt16FromElements L elements t"
  using assms
  by (simp_all add: getStringFromElements_def getUInt16FromElements_def findElementWithTag_filter)

text \<open>Removing every element (0000,1000) from the input changes nothing for decodeC_STORE_RSP.\<close>

lemma decodeC_STORE_RSP_ignores_instance_UID:
  "decodeC_STORE_RSP L (filter (\<lambda>e. Tag e \<noteq> TagAffectedSOPInstanceUID) elements)
     = decodeC_STORE_RSP L elements"
proof -
  have neq: "TagAffectedSOPClassUID \<noteq> TagAffectedSOPInstanceUID"
    "TagMessageIDBeingRespondedTo \<noteq> TagAffectedSOPInstanceUID"
    "TagStatus \<noteq> TagAffectedSOPInstanceUID"
    "TagCommandDataSetType \<noteq> TagAffectedSOPInstanceUID"
    by (simp_all add: Tag_defs)
  show ?thesis
    unfolding decodeC_STORE_RSP_def
      getFromElements_filter(1) [OF neq(1)] getFromElements_filter(2) [OF neq(2)]
      getFromElements_filter(2) [OF neq(3)] getFromElements_filter(2) [OF neq(4)]
    by (rule refl)
qed

lemma decodeC_STORE_RSP_instance_UID_empty:
  "decodeC_STORE_RSP L elements = Inr v \<Longrightarrow> C_STORE_RSP.AffectedSOPInstanceUID v = ''''"
  by (auto simp: decodeC_STORE_RSP_def split: prod.splits option.splits)

text \<open>Whatever the library, a decoded response has the empty instance UID.\<close>

lemma DecodeDIMSEMessage_RSP_instance_UID_empty:
  "DecodeDIMSEMessage L io limit = Returns (Some (C_STORE_RSP_ptr (Some v)), err)
     \<Longrightarrow> C_STORE_RSP.AffectedSOPInstanceUID v = ''''"
  by (auto simp: DecodeDIMSEMessage_def decodeC_STORE_RSP_instance_UID_empty
           split: option.splits prod.splits if_splits sum.splits)

text \<open>
  C6. The claim is that decoding a C-STORE-RSP without the element AffectedSOPInstanceUID
  fails. The code does not look for that element: decodeC_STORE_RSP reads the other four
  and returns. The response without the element decodes, with no error.
\<close>

theorem DecodeDIMSEMessage_RSP_without_instance_UID:
  "DecodeDIMSEMessage implicitLE rspWithoutInstanceUID (int (length rspWithoutInstanceUID))
   = Returns (Some (C_STORE_RSP_ptr
       (Some (exampleRSP \<lparr> C_STORE_RSP.AffectedSOPInstanceUID := '''' \<rparr>))), None)"
  by code_simp

subsection \<open>Encoding, then decoding\<close>

lemma exampleRQ_round_trip:
  "DecodeDIMSEMessage implicitLE
     (encodedBytes (encodeDIMSEMessage implicitLE (C_STORE_RQ_ptr (Some exampleRQ)))) 100
   = Returns (Some (C_STORE_RQ_ptr (Some exampleRQ)), None)"
  by code_simp

text \<open>
  C1. The claim is that decoding the encoding of a valid C-STORE-RQ or C-STORE-RSP gives
  the message back, field for field. The code loses the instance UID of every response:
  Encode writes it, decodeC_STORE_RSP never reads it. The response with the data set
  type 0x0101 and the instance UID 1.2.3 comes back with the empty instance UID.
\<close>

theorem C_STORE_RSP_round_trip_loses_instance_UID:
  "DecodeDIMSEMessage implicitLE
     (encodedBytes (encodeDIMSEMessage implicitLE (C_STORE_RSP_ptr (Some exampleRSP)))) 100
   = Returns (Some (C_STORE_RSP_ptr
       (Some (exampleRSP \<lparr> C_STORE_RSP.AffectedSOPInstanceUID := '''' \<rparr>))), None)
   \<and> exampleRSP \<lparr> C_STORE_RSP.AffectedSOPInstanceUID := '''' \<rparr> \<noteq> exampleRSP
   \<and> C_STORE_RSP.CommandDataSetType exampleRSP = 0x101"
  by code_simp

subsection \<open>What the assembler accumulates\<close>

lemma addItem_bytes:
  assumes "addItem a item = Returns a'"
  shows "commandBytes a' = commandBytes a @ commandValues [item]"
    and "dataBytes a' = dataBytes a @ dataValues [item]"
    and "command a' = command a"
  using assms
  by (auto simp: addItem_def andThen_Returns_iff Let_def doassert_def commandValues_def
                 dataValues_def split: if_splits)

lemma commandValues_Cons: "commandValues (x # xs) = commandValues [x] @ commandValues xs"
  by (simp add: commandValues_def)

lemma dataValues_Cons: "dataValues (x # xs) = dataValues [x] @ dataValues xs"
  by (simp add: dataValues_def)

lemma commandValues_append: "commandValues (xs @ ys) = commandValues xs @ commandValues ys"
  by (simp add: commandValues_def)

lemma dataValues_append: "dataValues (xs @ ys) = dataValues xs @ dataValues ys"
  by (simp add: dataValues_def)

lemma allItems_Cons: "allItems (pdu # pdus) = Items pdu @ allItems pdus"
  by (simp add: allItems_def)

text \<open>
  The loop over the items appends the bytes of the command PDVs to \<^verbatim>\<open>commandBytes\<close> and
  those of the data PDVs to \<^verbatim>\<open>dataBytes\<close>, in order, and leaves the decoded command alone.
\<close>

lemma addItems_bytes:
  assumes "addItems a items = Returns a'"
  shows "commandBytes a' = commandBytes a @ commandValues items
       \<and> dataBytes a' = dataBytes a @ dataValues items
       \<and> command a' = command a"
  using assms
proof (induction items arbitrary: a)
  case Nil
  then show ?case by (simp add: commandValues_def dataValues_def)
next
  case (Cons x xs)
  from Cons.prems obtain a1
    where a1: "addItem a x = Returns a1" and rest: "addItems a1 xs = Returns a'"
    by (auto simp: andThen_Returns_iff)
  from Cons.IH [OF rest] addItem_bytes [OF a1] show ?case
    by (simp add: commandValues_Cons [of x xs] dataValues_Cons [of x xs])
qed

subsection \<open>A command without a data set\<close>

text \<open>
  C4, as it is stated, fails, in four ways, one for each conjunct group below.
  A C-STORE-RQ whose data set type is 0x0101 decodes, and then \<^verbatim>\<open>HasData\<close> of C_STORE_RQ
  asserts that the data set type is not 0x0101: the call panics and no message is emitted.
  A response is emitted with the data bytes accumulated, which are not empty when a data
  PDV came before the last command PDV. When an earlier decode of the same message failed
  for a missing element, the assembler holds the nil \<^verbatim>\<open>*C_STORE_RSP\<close> as its command: a
  later call after which the command bytes do decode to a response with the data set type
  0x0101 does not decode them and dereferences the nil pointer. And a second command PDV
  with \<^verbatim>\<open>Last\<close> fails the assertion in the loop over the items.
\<close>

theorem addPDataTF_null_RQ_panics:
  "DecodeDIMSEMessage implicitLE
      (encodedBytes (encodeDIMSEMessage implicitLE (C_STORE_RQ_ptr (Some exampleNullRQ)))) 100
    = Returns (Some (C_STORE_RQ_ptr (Some exampleNullRQ)), None)
   \<and> C_STORE_RQ.CommandDataSetType exampleNullRQ = 0x101
   \<and> addPDataTF implicitLE dimseCommandAssembler_zero
       \<lparr> Items = [commandPDV True
          (encodedBytes (encodeDIMSEMessage implicitLE (C_STORE_RQ_ptr (Some exampleNullRQ))))] \<rparr>
       exampleContexts
     = Panics AssertionFailed
   \<and> addPDataTF implicitLE dimseCommandAssembler_zero
       \<lparr> Items = [dataPDV False [1, 2], commandPDV True exampleRSPBytes] \<rparr> exampleContexts
     = Returns (dimseCommandAssembler_zero, storageSOPClass,
         Some (C_STORE_RSP_ptr (Some (exampleRSP \<lparr> C_STORE_RSP.AffectedSOPInstanceUID := '''' \<rparr>))),
         [1, 2], None)
   \<and> addPDataTF implicitLE dimseCommandAssembler_zero
       \<lparr> Items = [commandPDV True rspWithoutStatus] \<rparr> exampleContexts
     = Returns (dimseCommandAssembler_zero
                  \<lparr> contextID := 1, commandBytes := rspWithoutStatus,
                    command := Some (C_STORE_RSP_ptr None), readAllCommand := True \<rparr>,
                '''', None, [], Some (ElementNotFound TagStatus))
   \<and> decodeAll implicitLE (rspWithoutStatus @ statusElement)
     = Returns (Some (C_STORE_RSP_ptr
         (Some (exampleRSP \<lparr> C_STORE_RSP.AffectedSOPInstanceUID := '''' \<rparr>))), None)
   \<and> addPDataTF implicitLE
       (dimseCommandAssembler_zero
          \<lparr> contextID := 1, commandBytes := rspWithoutStatus,
            command := Some (C_STORE_RSP_ptr None), readAllCommand := True \<rparr>)
       \<lparr> Items = [commandPDV False statusElement] \<rparr> exampleContexts
     = Panics NilPointerDereference
   \<and> addPDataTF implicitLE dimseCommandAssembler_zero
       \<lparr> Items = [commandPDV True exampleRSPBytes, commandPDV True []] \<rparr> exampleContexts
     = Panics AssertionFailed"
proof (intro conjI)
  show "DecodeDIMSEMessage implicitLE
      (encodedBytes (encodeDIMSEMessage implicitLE (C_STORE_RQ_ptr (Some exampleNullRQ)))) 100
    = Returns (Some (C_STORE_RQ_ptr (Some exampleNullRQ)), None)"
    by code_simp
  show "C_STORE_RQ.CommandDataSetType exampleNullRQ = 0x101"
    by code_simp
  show "addPDataTF implicitLE dimseCommandAssembler_zero
       \<lparr> Items = [commandPDV True
          (encodedBytes (encodeDIMSEMessage implicitLE (C_STORE_RQ_ptr (Some exampleNullRQ))))] \<rparr>
       exampleContexts
     = Panics AssertionFailed"
    by code_simp
  show "addPDataTF implicitLE dimseCommandAssembler_zero
       \<lparr> Items = [dataPDV False [1, 2], commandPDV True exampleRSPBytes] \<rparr> exampleContexts
     = Returns (dimseCommandAssembler_zero, storageSOPClass,
         Some (C_STORE_RSP_ptr (Some (exampleRSP \<lparr> C_STORE_RSP.AffectedSOPInstanceUID := '''' \<rparr>))),
         [1, 2], None)"
    by code_simp
  show "addPDataTF implicitLE dimseCommandAssembler_zero
       \<lparr> Items = [commandPDV True rspWithoutStatus] \<rparr> exampleContexts
     = Returns (dimseCommandAssembler_zero
                  \<lparr> contextID := 1, commandBytes := rspWithoutStatus,
                    command := Some (C_STORE_RSP_ptr None), readAllCommand := True \<rparr>,
                '''', None, [], Some (ElementNotFound TagStatus))"
    by code_simp
  show "decodeAll implicitLE (rspWithoutStatus @ statusElement)
     = Returns (Some (C_STORE_RSP_ptr
         (Some (exampleRSP \<lparr> C_STORE_RSP.AffectedSOPInstanceUID := '''' \<rparr>))), None)"
    by code_simp
  show "addPDataTF implicitLE
       (dimseCommandAssembler_zero
          \<lparr> contextID := 1, commandBytes := rspWithoutStatus,
            command := Some (C_STORE_RSP_ptr None), readAllCommand := True \<rparr>)
       \<lparr> Items = [commandPDV False statusElement] \<rparr> exampleContexts
     = Panics NilPointerDereference"
    by code_simp
  show "addPDataTF implicitLE dimseCommandAssembler_zero
       \<lparr> Items = [commandPDV True exampleRSPBytes, commandPDV True []] \<rparr> exampleContexts
     = Panics AssertionFailed"
    by code_simp
qed

text \<open>
  C4, amended. For every call of addPDataTF on an assembler that holds no command
  (\<^verbatim>\<open>a.command\<close> is nil), in which the loop over the items of the P-DATA-TF ends without a
  panic and leaves the command fragments complete, and in which the command bytes
  accumulated decode, without error, to a C-STORE-RSP whose data set type is 0x0101:
  addPDataTF emits that response in this call, whether or not a last data PDV has been
  seen, resets the assembler, and returns the data bytes accumulated so far (none, when no
  data PDV has arrived).
\<close>

theorem addPDataTF_null_RSP_emits:
  assumes items: "addItems a (Items pdu) = Returns a1"
    and complete: "readAllCommand a1"
    and undecoded: "command a = None"
    and decoded: "decodeAll L (commandBytes a @ commandValues (Items pdu))
                  = Returns (Some (C_STORE_RSP_ptr (Some v)), None)"
    and null: "C_STORE_RSP.CommandDataSetType v = CommandDataSetTypeNull"
  shows "addPDataTF L a pdu m
         = Returns (dimseCommandAssembler_zero,
                    fst (contextIDToAbstractSyntaxName m (contextID a1)),
                    Some (C_STORE_RSP_ptr (Some v)),
                    dataBytes a @ dataValues (Items pdu), None)"
proof -
  from addItems_bytes [OF items] undecoded
  have b: "commandBytes a1 = commandBytes a @ commandValues (Items pdu)"
    "dataBytes a1 = dataBytes a @ dataValues (Items pdu)" "command a1 = None"
    by simp_all
  have h: "HasData (C_STORE_RSP_ptr (Some v)) = Returns False"
    using null by (simp add: C_STORE_RSP_HasData_def doassert_def)
  show ?thesis
    using items complete decoded h
    by (simp add: addPDataTF_def b split: prod.splits)
qed

theorem addPDataTF_null_RSP_emits_witness:
  "addPDataTF implicitLE dimseCommandAssembler_zero
     \<lparr> Items = [commandPDV True
        (encodedBytes (encodeDIMSEMessage implicitLE (C_STORE_RSP_ptr (Some exampleRSP))))] \<rparr>
     exampleContexts
   = Returns (dimseCommandAssembler_zero, storageSOPClass,
        Some (C_STORE_RSP_ptr (Some (exampleRSP \<lparr> C_STORE_RSP.AffectedSOPInstanceUID := '''' \<rparr>))),
        [], None)"
proof -
  let ?bytes = "encodedBytes (encodeDIMSEMessage implicitLE (C_STORE_RSP_ptr (Some exampleRSP)))"
  let ?pdu = "\<lparr> Items = [commandPDV True ?bytes] \<rparr>"
  let ?a1 = "dimseCommandAssembler_zero
               \<lparr> contextID := 1, commandBytes := ?bytes, readAllCommand := True \<rparr>"
  let ?v = "exampleRSP \<lparr> C_STORE_RSP.AffectedSOPInstanceUID := '''' \<rparr>"
  have 1: "addItems dimseCommandAssembler_zero (Items ?pdu) = Returns ?a1" by code_simp
  have 2: "readAllCommand ?a1" by simp
  have 3: "command dimseCommandAssembler_zero = None" by code_simp
  have 4: "decodeAll implicitLE
             (commandBytes dimseCommandAssembler_zero @ commandValues (Items ?pdu))
           = Returns (Some (C_STORE_RSP_ptr (Some ?v)), None)" by code_simp
  have 5: "C_STORE_RSP.CommandDataSetType ?v = CommandDataSetTypeNull" by code_simp
  have 6: "fst (contextIDToAbstractSyntaxName exampleContexts (contextID ?a1)) = storageSOPClass"
    by code_simp
  have 7: "dataBytes dimseCommandAssembler_zero @ dataValues (Items ?pdu) = []" by code_simp
  from addPDataTF_null_RSP_emits [OF 1 2 3 4 5, of exampleContexts] show ?thesis
    unfolding 6 7 .
qed

subsection \<open>The bytes of an assembled message\<close>

text \<open>A message that DecodeDIMSEMessage returns together with an error holds a nil pointer.\<close>

lemma DecodeDIMSEMessage_error_nil:
  assumes "DecodeDIMSEMessage L io limit = Returns (Some c, Some err)"
  shows "c = C_STORE_RQ_ptr None \<or> c = C_STORE_RSP_ptr None"
  using assms
  by (auto simp: DecodeDIMSEMessage_def split: option.splits prod.splits if_splits sum.splits)

lemma DecodeDIMSEMessage_HasData:
  assumes "DecodeDIMSEMessage L io limit = Returns (Some c, e)" and "HasData c = Returns h"
  shows "e = None"
proof (cases e)
  case None
  then show ?thesis .
next
  case (Some err)
  with assms(1) DecodeDIMSEMessage_error_nil
  have "c = C_STORE_RQ_ptr None \<or> c = C_STORE_RSP_ptr None"
    by blast
  with assms(2) show ?thesis
    by (auto simp: C_STORE_RQ_HasData_def C_STORE_RSP_HasData_def)
qed

text \<open>One call that emits.\<close>

lemma addPDataTF_emits:
  assumes "addPDataTF L a pdu m = Returns (a', syntaxName, Some c, data, err)"
  shows "data = dataBytes a @ dataValues (Items pdu)"
    and "\<exists>h. HasData c = Returns h"
    and "command a = Some c0 \<Longrightarrow> c = c0"
    and "command a = None \<Longrightarrow>
           decodeAll L (commandBytes a @ commandValues (Items pdu)) = Returns (Some c, None)"
proof -
  from assms obtain a1 where items: "addItems a (Items pdu) = Returns a1"
    by (auto simp: addPDataTF_def andThen_Returns_iff)
  note b = addItems_bytes [OF items]
  from assms items b show "data = dataBytes a @ dataValues (Items pdu)"
    by (auto simp: addPDataTF_def andThen_Returns_iff split: if_splits option.splits prod.splits)
  from assms items b show "\<exists>h. HasData c = Returns h"
    by (auto simp: addPDataTF_def andThen_Returns_iff split: if_splits option.splits prod.splits)
  from assms items b show "command a = Some c0 \<Longrightarrow> c = c0"
    by (auto simp: addPDataTF_def andThen_Returns_iff split: if_splits option.splits prod.splits)
  from assms items b show "command a = None \<Longrightarrow>
      decodeAll L (commandBytes a @ commandValues (Items pdu)) = Returns (Some c, None)"
    by (auto simp: addPDataTF_def andThen_Returns_iff split: if_splits option.splits prod.splits)
qed

text \<open>
  One call that does not emit: the assembler afterwards is the one that took the items
  in, with at most the decoded command stored in it.
\<close>

lemma addPDataTF_continues_state:
  assumes "addPDataTF L a pdu m = Returns (a', syntaxName, None, data, err)"
    and items: "addItems a (Items pdu) = Returns a1"
  shows "a' = a1 \<or> (command a1 = None \<and>
           (\<exists>c e. decodeAll L (commandBytes a1) = Returns (c, e) \<and> a' = a1\<lparr>command := c\<rparr>))"
proof (cases "readAllCommand a1")
  case False
  with assms show ?thesis by (simp add: addPDataTF_def)
next
  case True
  show ?thesis
  proof (cases "command a1")
    case (Some c1)
    with assms True show ?thesis
      by (cases "HasData c1") (auto simp: addPDataTF_def split: if_splits prod.splits)
  next
    case None
    show ?thesis
    proof (cases "decodeAll L (commandBytes a1)")
      case (Returns r)
      obtain c e where r: "r = (c, e)" by (cases r)
      show ?thesis
      proof (cases e)
        case (Some err)
        with assms True None Returns r show ?thesis by (simp add: addPDataTF_def)
      next
        case noerr: None
        show ?thesis
        proof (cases c)
          case None
          with assms True \<open>command a1 = None\<close> Returns r noerr show ?thesis
            by (simp add: addPDataTF_def)
        next
          case (Some c1)
          with assms True \<open>command a1 = None\<close> Returns r noerr show ?thesis
            by (cases "HasData c1") (auto simp: addPDataTF_def split: if_splits prod.splits)
        qed
      qed
    next
      case (Panics p)
      with assms True None show ?thesis by (simp add: addPDataTF_def)
    next
      case Hangs
      with assms True None show ?thesis by (simp add: addPDataTF_def)
    qed
  qed
qed

lemma addPDataTF_continues:
  assumes "addPDataTF L a pdu m = Returns (a', syntaxName, None, data, err)"
  shows "commandBytes a' = commandBytes a @ commandValues (Items pdu)"
    and "dataBytes a' = dataBytes a @ dataValues (Items pdu)"
    and "command a = Some c0 \<Longrightarrow> command a' = Some c0"
    and "command a = None \<Longrightarrow> command a' = Some c \<Longrightarrow>
           \<exists>e. decodeAll L (commandBytes a @ commandValues (Items pdu)) = Returns (Some c, e)"
proof -
  from assms obtain a1 where items: "addItems a (Items pdu) = Returns a1"
    by (auto simp: addPDataTF_def andThen_Returns_iff)
  note b = addItems_bytes [OF items]
  note st = addPDataTF_continues_state [OF assms items]
  from st b show "commandBytes a' = commandBytes a @ commandValues (Items pdu)"
    by auto
  from st b show "dataBytes a' = dataBytes a @ dataValues (Items pdu)"
    by auto
  from st b show "command a = Some c0 \<Longrightarrow> command a' = Some c0"
    by auto
  from st b show "command a = None \<Longrightarrow> command a' = Some c \<Longrightarrow>
      \<exists>e. decodeAll L (commandBytes a @ commandValues (Items pdu)) = Returns (Some c, e)"
    by auto
qed

text \<open>
  A sequence of calls, from any assembler, that ends with the call that emits: the data
  bytes are all the data bytes; a command decoded before stays; a command not yet decoded
  is decoded from the command bytes of a prefix of the calls.
\<close>

lemma assemble_emits:
  assumes "assemble L a pdus m = Returns (a', Some (syntaxName, c, data), [])"
  shows "data = dataBytes a @ dataValues (allItems pdus)
       \<and> (\<exists>h. HasData c = Returns h)
       \<and> (\<forall>c0. command a = Some c0 \<longrightarrow> c = c0)
       \<and> (command a = None \<longrightarrow>
            (\<exists>pre post e. pdus = pre @ post \<and> pre \<noteq> []
               \<and> decodeAll L (commandBytes a @ commandValues (allItems pre)) = Returns (Some c, e)))"
  using assms
proof (induction pdus arbitrary: a)
  case Nil
  then show ?case by simp
next
  case (Cons pdu pdus)
  from Cons.prems obtain a1 n1 c1 d1 e1 where
    call: "addPDataTF L a pdu m = Returns (a1, n1, c1, d1, e1)"
    and rest: "(case c1 of Some msg \<Rightarrow> Returns (a1, Some (n1, msg, d1), pdus)
                | None \<Rightarrow> assemble L a1 pdus m) = Returns (a', Some (syntaxName, c, data), [])"
    by (auto simp: andThen_Returns_iff)
  show ?case
  proof (cases c1)
    case (Some msg)
    with rest have eq: "msg = c" "d1 = data" "pdus = []" by simp_all
    from call Some eq have emit: "addPDataTF L a pdu m = Returns (a1, n1, Some c, data, e1)"
      by simp
    have "command a = None \<longrightarrow>
            (\<exists>pre post e. [pdu] = pre @ post \<and> pre \<noteq> []
               \<and> decodeAll L (commandBytes a @ commandValues (allItems pre)) = Returns (Some c, e))"
    proof
      assume "command a = None"
      from addPDataTF_emits(4) [OF emit this]
      have "decodeAll L (commandBytes a @ commandValues (allItems [pdu])) = Returns (Some c, None)"
        by (simp add: allItems_def)
      then show "\<exists>pre post e. [pdu] = pre @ post \<and> pre \<noteq> []
               \<and> decodeAll L (commandBytes a @ commandValues (allItems pre)) = Returns (Some c, e)"
        by (intro exI [of _ "[pdu]"] exI [of _ "[]"] exI [of _ None]) simp
    qed
    with addPDataTF_emits(1,2) [OF emit] addPDataTF_emits(3) [OF emit] eq show ?thesis
      by (simp add: allItems_def)
  next
    case None
    with rest have run: "assemble L a1 pdus m = Returns (a', Some (syntaxName, c, data), [])"
      by simp
    from call None have cont: "addPDataTF L a pdu m = Returns (a1, n1, None, d1, e1)" by simp
    note ih = Cons.IH [OF run]
    note st = addPDataTF_continues [OF cont]
    have data: "data = dataBytes a @ dataValues (allItems (pdu # pdus))"
      using ih st(2) by (simp add: allItems_Cons dataValues_append)
    have kept: "\<forall>c0. command a = Some c0 \<longrightarrow> c = c0"
      using ih st(3) by auto
    have found: "command a = None \<longrightarrow>
            (\<exists>pre post e. pdu # pdus = pre @ post \<and> pre \<noteq> []
               \<and> decodeAll L (commandBytes a @ commandValues (allItems pre)) = Returns (Some c, e))"
    proof
      assume none: "command a = None"
      show "\<exists>pre post e. pdu # pdus = pre @ post \<and> pre \<noteq> []
               \<and> decodeAll L (commandBytes a @ commandValues (allItems pre)) = Returns (Some c, e)"
      proof (cases "command a1")
        case None
        with ih obtain pre post e where p: "pdus = pre @ post" "pre \<noteq> []"
          "decodeAll L (commandBytes a1 @ commandValues (allItems pre)) = Returns (Some c, e)"
          by auto
        from p(3) st(1)
        have "decodeAll L (commandBytes a @ commandValues (allItems (pdu # pre)))
                = Returns (Some c, e)"
          by (simp add: allItems_Cons commandValues_append)
        with p(1) show ?thesis
          by (intro exI [of _ "pdu # pre"] exI [of _ post] exI [of _ e]) simp
      next
        case (Some c')
        with ih have "c = c'" by simp
        with st(4) [OF none] Some obtain e where
          "decodeAll L (commandBytes a @ commandValues (Items pdu)) = Returns (Some c, e)"
          by auto
        then show ?thesis
          by (intro exI [of _ "[pdu]"] exI [of _ pdus] exI [of _ e]) (simp add: allItems_def)
      qed
    qed
    from data kept found ih show ?thesis by simp
  qed
qed

lemma addItem_readAllCommand:
  assumes "addItem a item = Returns a'" and "readAllCommand a'"
  shows "readAllCommand a \<or> (Command item \<and> Last item)"
  using assms
  by (auto simp: addItem_def andThen_Returns_iff Let_def doassert_def split: if_splits)

lemma addItems_readAllCommand:
  assumes "addItems a items = Returns a'" and "readAllCommand a'"
  shows "readAllCommand a \<or> (\<exists>item\<in>set items. Command item \<and> Last item)"
  using assms
proof (induction items arbitrary: a)
  case Nil
  then show ?case by simp
next
  case (Cons x xs)
  from Cons.prems obtain a1
    where a1: "addItem a x = Returns a1" and rest: "addItems a1 xs = Returns a'"
    by (auto simp: andThen_Returns_iff)
  from Cons.IH [OF rest Cons.prems(2)] addItem_readAllCommand [OF a1] show ?case
    by auto
qed

text \<open>The decoder is called only when the command fragments are complete.\<close>

lemma addPDataTF_emits_complete:
  assumes "addPDataTF L a pdu m = Returns (a', syntaxName, Some c, data, err)"
  shows "readAllCommand a \<or> (\<exists>item\<in>set (Items pdu). Command item \<and> Last item)"
proof -
  from assms obtain a1 where items: "addItems a (Items pdu) = Returns a1"
    by (auto simp: addPDataTF_def andThen_Returns_iff)
  from assms items have "readAllCommand a1"
    by (auto simp: addPDataTF_def split: if_splits)
  with addItems_readAllCommand [OF items] show ?thesis by simp
qed

lemma addPDataTF_continues_complete:
  assumes "addPDataTF L a pdu m = Returns (a', syntaxName, None, data, err)"
    and "readAllCommand a'"
  shows "readAllCommand a \<or> (\<exists>item\<in>set (Items pdu). Command item \<and> Last item)"
proof -
  from assms obtain a1 where items: "addItems a (Items pdu) = Returns a1"
    by (auto simp: addPDataTF_def andThen_Returns_iff)
  from addPDataTF_continues_state [OF assms(1) items] assms(2) have "readAllCommand a1"
    by auto
  with addItems_readAllCommand [OF items] show ?thesis by simp
qed

lemma addPDataTF_continues_decoded:
  assumes "addPDataTF L a pdu m = Returns (a', syntaxName, None, data, err)"
    and "command a = None" and "command a' = Some c"
  shows "readAllCommand a'"
proof -
  from assms obtain a1 where items: "addItems a (Items pdu) = Returns a1"
    by (auto simp: addPDataTF_def andThen_Returns_iff)
  from addItems_bytes [OF items] assms(2) have none: "command a1 = None" by simp
  have "readAllCommand a1"
  proof (rule ccontr)
    assume "\<not> readAllCommand a1"
    with assms(1) items have "a' = a1" by (simp add: addPDataTF_def)
    with none assms(3) show False by simp
  qed
  with addPDataTF_continues_state [OF assms(1) items] show ?thesis
    by auto
qed

lemma assemble_emits_complete:
  assumes "assemble L a pdus m = Returns (a', Some (syntaxName, c, data), [])"
    and "command a = None"
  shows "\<exists>pre post e. pdus = pre @ post \<and> pre \<noteq> []
           \<and> decodeAll L (commandBytes a @ commandValues (allItems pre)) = Returns (Some c, e)
           \<and> (readAllCommand a \<or> (\<exists>item\<in>set (allItems pre). Command item \<and> Last item))"
  using assms
proof (induction pdus arbitrary: a)
  case Nil
  then show ?case by simp
next
  case (Cons pdu pdus)
  from Cons.prems obtain a1 n1 c1 d1 e1 where
    call: "addPDataTF L a pdu m = Returns (a1, n1, c1, d1, e1)"
    and rest: "(case c1 of Some msg \<Rightarrow> Returns (a1, Some (n1, msg, d1), pdus)
                | None \<Rightarrow> assemble L a1 pdus m) = Returns (a', Some (syntaxName, c, data), [])"
    by (auto simp: andThen_Returns_iff)
  show ?case
  proof (cases c1)
    case (Some msg)
    with rest have eq: "msg = c" "d1 = data" "pdus = []" by simp_all
    from call Some eq have emit: "addPDataTF L a pdu m = Returns (a1, n1, Some c, data, e1)"
      by simp
    from addPDataTF_emits(4) [OF emit Cons.prems(2)] addPDataTF_emits_complete [OF emit] eq
    show ?thesis
      by (intro exI [of _ "[pdu]"] exI [of _ "[]"] exI [of _ None]) (simp add: allItems_def)
  next
    case None
    with rest have run: "assemble L a1 pdus m = Returns (a', Some (syntaxName, c, data), [])"
      by simp
    from call None have cont: "addPDataTF L a pdu m = Returns (a1, n1, None, d1, e1)" by simp
    note st = addPDataTF_continues [OF cont]
    show ?thesis
    proof (cases "command a1")
      case None
      from Cons.IH [OF run None] obtain pre post e where p: "pdus = pre @ post" "pre \<noteq> []"
        "decodeAll L (commandBytes a1 @ commandValues (allItems pre)) = Returns (Some c, e)"
        "readAllCommand a1 \<or> (\<exists>item\<in>set (allItems pre). Command item \<and> Last item)"
        by blast
      from p(3) st(1)
      have dec: "decodeAll L (commandBytes a @ commandValues (allItems (pdu # pre)))
              = Returns (Some c, e)"
        by (simp add: allItems_Cons commandValues_append)
      from p(4) addPDataTF_continues_complete [OF cont]
      have "readAllCommand a \<or> (\<exists>item\<in>set (allItems (pdu # pre)). Command item \<and> Last item)"
        by (auto simp: allItems_Cons)
      with dec p(1) show ?thesis
        by (intro exI [of _ "pdu # pre"] exI [of _ post] exI [of _ e]) simp
    next
      case (Some c')
      from assemble_emits [OF run] Some have "c = c'" by simp
      with st(4) [OF Cons.prems(2)] Some obtain e where
        dec: "decodeAll L (commandBytes a @ commandValues (Items pdu)) = Returns (Some c, e)"
        by auto
      from addPDataTF_continues_decoded [OF cont Cons.prems(2) Some]
        addPDataTF_continues_complete [OF cont]
      have "readAllCommand a \<or> (\<exists>item\<in>set (allItems [pdu]). Command item \<and> Last item)"
        by (simp add: allItems_def)
      with dec show ?thesis
        by (intro exI [of _ "[pdu]"] exI [of _ pdus] exI [of _ e]) (simp add: allItems_def)
    qed
  qed
qed

lemma noCommandAfterLast_append:
  assumes "noCommandAfterLast (xs @ ys)" and "\<exists>item\<in>set xs. Command item \<and> Last item"
  shows "filter Command ys = []"
  using assms
  by (induction xs) (auto split: if_splits)

lemma allItems_append: "allItems (xs @ ys) = allItems xs @ allItems ys"
  by (simp add: allItems_def)

text \<open>
  C7, as it is stated, fails. The command is decoded in the first call that finds the
  command fragments complete and is kept; command PDVs of later calls are appended to
  \<^verbatim>\<open>commandBytes\<close> and never decoded. Here the second PDU carries one more command PDV,
  an element (0000,1030): the message emitted holds the command decoded from the bytes of
  the first PDU, which is not what the command bytes accumulated at the emitting call
  decode to.
\<close>

theorem assemble_late_command_PDV:
  "assemble implicitLE dimseCommandAssembler_zero [commandPDU, lateCommandPDU] exampleContexts
     = Returns (dimseCommandAssembler_zero,
                Some (storageSOPClass, C_STORE_RQ_ptr (Some exampleRQ), [1, 2, 3, 4]), [])
   \<and> decodeAll implicitLE (commandValues (allItems [commandPDU, lateCommandPDU]))
     = Returns (Some (C_STORE_RQ_ptr
         (Some (exampleRQ \<lparr> MoveOriginatorApplicationEntityTitle := ''STORESCU'' \<rparr>))), None)
   \<and> exampleRQ \<lparr> MoveOriginatorApplicationEntityTitle := ''STORESCU'' \<rparr> \<noteq> exampleRQ"
  by code_simp

text \<open>
  C7, amended. For every sequence of calls of addPDataTF that starts on the empty assembler
  and ends with the first call that emits a message: the data bytes returned are the bytes
  of all data PDVs of these calls, in arrival order; the command returned is what
  DecodeDIMSEMessage returned, without error, for the bytes, in arrival order, of the
  command PDVs of the calls up to the one that decoded it, a prefix of the sequence that is
  not empty; and when no command PDV follows the command PDV that carries \<^verbatim>\<open>Last\<close>, these
  are the bytes of all command PDVs of the sequence.
\<close>

theorem assemble_message_bytes:
  assumes "assemble L dimseCommandAssembler_zero pdus m
             = Returns (a', Some (syntaxName, c, data), [])"
  shows "data = dataValues (allItems pdus)
       \<and> (\<exists>pre post. pdus = pre @ post \<and> pre \<noteq> []
             \<and> decodeAll L (commandValues (allItems pre)) = Returns (Some c, None))
       \<and> (noCommandAfterLast (allItems pdus) \<longrightarrow>
             decodeAll L (commandValues (allItems pdus)) = Returns (Some c, None))"
proof -
  have zero: "command dimseCommandAssembler_zero = None"
    "commandBytes dimseCommandAssembler_zero = []"
    "dataBytes dimseCommandAssembler_zero = []"
    "\<not> readAllCommand dimseCommandAssembler_zero"
    by (simp_all add: dimseCommandAssembler_zero_def)
  from assemble_emits [OF assms] zero
  have d: "data = dataValues (allItems pdus)" and "\<exists>h. HasData c = Returns h"
    by simp_all
  then obtain h where h: "HasData c = Returns h" by blast
  from assemble_emits_complete [OF assms zero(1)] zero obtain pre post e
    where p: "pdus = pre @ post" "pre \<noteq> []"
      "decodeAll L (commandValues (allItems pre)) = Returns (Some c, e)"
      "\<exists>item\<in>set (allItems pre). Command item \<and> Last item"
    by auto
  from DecodeDIMSEMessage_HasData [OF p(3) h] p(3)
  have dec: "decodeAll L (commandValues (allItems pre)) = Returns (Some c, None)"
    by simp
  have "noCommandAfterLast (allItems pdus) \<longrightarrow>
          decodeAll L (commandValues (allItems pdus)) = Returns (Some c, None)"
  proof
    assume "noCommandAfterLast (allItems pdus)"
    with p(1) have "noCommandAfterLast (allItems pre @ allItems post)"
      by (simp add: allItems_append)
    from noCommandAfterLast_append [OF this p(4)]
    have "commandValues (allItems post) = []"
      by (simp add: commandValues_def)
    with p(1) have "commandValues (allItems pdus) = commandValues (allItems pre)"
      by (simp add: allItems_append commandValues_append)
    with dec show "decodeAll L (commandValues (allItems pdus)) = Returns (Some c, None)"
      by simp
  qed
  with d dec p(1,2) show ?thesis by blast
qed

theorem assemble_message_bytes_witness:
  "assemble implicitLE dimseCommandAssembler_zero [commandPDU, dataPDU] exampleContexts
     = Returns (dimseCommandAssembler_zero,
                Some (storageSOPClass, C_STORE_RQ_ptr (Some exampleRQ), [1, 2, 3, 4]), [])
   \<and> noCommandAfterLast (allItems [commandPDU, dataPDU])
   \<and> [1, 2, 3, 4] = dataValues (allItems [commandPDU, dataPDU])
   \<and> decodeAll implicitLE (commandValues (allItems [commandPDU, dataPDU]))
     = Returns (Some (C_STORE_RQ_ptr (Some exampleRQ)), None)"
proof -
  have run: "assemble implicitLE dimseCommandAssembler_zero [commandPDU, dataPDU] exampleContexts
     = Returns (dimseCommandAssembler_zero,
                Some (storageSOPClass, C_STORE_RQ_ptr (Some exampleRQ), [1, 2, 3, 4]), [])"
    by code_simp
  have wf: "noCommandAfterLast (allItems [commandPDU, dataPDU])"
    by code_simp
  from assemble_message_bytes [OF run] run wf show ?thesis
    by simp
qed

subsection \<open>After a decode error\<close>

text \<open>
  When the decoder returns an error, addPDataTF returns it and keeps what it has
  accumulated; the one field it changes is \<^verbatim>\<open>command\<close>, which receives the message that
  came with the error.
\<close>

lemma addPDataTF_decode_error:
  assumes items: "addItems a (Items pdu) = Returns a1"
    and "readAllCommand a1" and "command a = None"
    and "decodeAll L (commandBytes a1) = Returns (c, Some err)"
  shows "addPDataTF L a pdu m = Returns (a1\<lparr>command := c\<rparr>, '''', None, [], Some err)"
proof -
  from addItems_bytes [OF items] assms(3) have "command a1 = None" by simp
  with assms show ?thesis
    by (simp add: addPDataTF_def)
qed

text \<open>
  When what came with the error is the nil interface (the decoder of the library failed,
  or the command field is missing), a next call that brings no command bytes decodes the
  same bytes again.
\<close>

lemma addPDataTF_decode_error_retry:
  assumes items: "addItems a1 (Items pdu) = Returns a2"
    and "readAllCommand a2" and "command a1 = None"
    and "commandValues (Items pdu) = []"
    and "decodeAll L (commandBytes a1) = Returns (None, Some err)"
  shows "addPDataTF L a1 pdu m = Returns (a2, '''', None, [], Some err)"
proof -
  from addItems_bytes [OF items] assms(3,4)
  have "command a2 = None" and "commandBytes a2 = commandBytes a1" by simp_all
  with assms show ?thesis
    by (simp add: addPDataTF_def)
qed

text \<open>
  When it is a message that came with the error (a required element of the request or of
  the response is missing), the message holds a nil pointer, and the next call that takes
  its items in dereferences it.
\<close>

lemma addPDataTF_after_typed_nil:
  assumes items: "addItems a1 (Items pdu) = Returns a2"
    and "readAllCommand a2"
    and "command a1 = Some c"
    and "c = C_STORE_RQ_ptr None \<or> c = C_STORE_RSP_ptr None"
  shows "addPDataTF L a1 pdu m = Panics NilPointerDereference"
proof -
  from addItems_bytes [OF items] assms(3) have "command a2 = Some c" by simp
  with assms show ?thesis
    by (auto simp: addPDataTF_def C_STORE_RQ_HasData_def C_STORE_RSP_HasData_def)
qed

text \<open>
  C10. The claim is that after a decode error the assembler is as it was and the next call
  decodes again. The code does so only when no message came with the error. For a
  C-STORE-RQ without message ID, \<^verbatim>\<open>return decodeC_STORE_RQ(elements)\<close> hands back the nil
  \<^verbatim>\<open>*C_STORE_RQ\<close> as a DIMSEMessage that is not nil; addPDataTF stores it in \<^verbatim>\<open>a.command\<close>
  before it looks at the error, and the next call, instead of decoding, calls
  \<^verbatim>\<open>HasData\<close> through the nil pointer.
\<close>

theorem addPDataTF_decode_error_then_nil_dereference:
  "addPDataTF implicitLE dimseCommandAssembler_zero
     \<lparr> Items = [commandPDV True rqWithoutMessageID] \<rparr> exampleContexts
   = Returns (dimseCommandAssembler_zero
                \<lparr> contextID := 1, commandBytes := rqWithoutMessageID,
                  command := Some (C_STORE_RQ_ptr None), readAllCommand := True \<rparr>,
              '''', None, [], Some (ElementNotFound TagMessageID))
   \<and> addPDataTF implicitLE
       (dimseCommandAssembler_zero
          \<lparr> contextID := 1, commandBytes := rqWithoutMessageID,
            command := Some (C_STORE_RQ_ptr None), readAllCommand := True \<rparr>)
       \<lparr> Items = [dataPDV False [1, 2]] \<rparr> exampleContexts
     = Panics NilPointerDereference"
  by code_simp

subsection \<open>The responses of C-MOVE and C-GET\<close>

lemma length_moveResponses: "length (moveResponses P n i ms) = length ms"
  by (induction ms arbitrary: i) (auto simp: Let_def split: prod.splits option.splits)

lemma Remaining_moveResponses:
  "k < length ms \<Longrightarrow> Remaining (moveResponses P n i ms ! k) = int n - int (i + k) - 1"
proof (induction ms arbitrary: i k)
  case Nil
  then show ?case by simp
next
  case (Cons m ms)
  show ?case
  proof (cases k)
    case 0
    then show ?thesis
      by (auto simp: Let_def split: prod.splits option.splits)
  next
    case (Suc j)
    with Cons.prems have "j < length ms" by simp
    from Cons.IH [OF this, of "Suc i"] Suc show ?thesis
      by (auto simp: Let_def split: prod.splits option.splits)
  qed
qed

text \<open>
  When no query and no construction of an element reports an error, the loop over the
  filters decides whether the filter matches the data set, and for a match it collects one
  element for each element of the filter.
\<close>

lemma matchFilters_filtersMatch:
  assumes "\<forall>f\<in>set flts. snd (snd (Query P ds f)) = None"
    and "\<forall>f\<in>set flts. \<exists>e. NewElement P (Tag f) = Inr e"
  shows "(filtersMatch P ds flts \<longrightarrow>
            (\<exists>found. matchFilters P ds flts es = Inr (Some (es @ found))
                     \<and> length found = length flts))
       \<and> (\<not> filtersMatch P ds flts \<longrightarrow> matchFilters P ds flts es = Inr None)"
  using assms
proof (induction flts arbitrary: es)
  case Nil
  then show ?case by simp
next
  case (Cons f fs)
  obtain ok elem err where q: "Query P ds f = (ok, elem, err)"
    by (cases "Query P ds f") auto
  from Cons.prems(1) q have err: "err = None" by simp
  from Cons.prems(2) obtain e' where new: "NewElement P (Tag f) = Inr e'" by auto
  from Cons.prems have rest: "\<forall>f\<in>set fs. snd (snd (Query P ds f)) = None"
    "\<forall>f\<in>set fs. \<exists>e. NewElement P (Tag f) = Inr e"
    by simp_all
  show ?case
  proof (cases ok)
    case False
    with q err show ?thesis by simp
  next
    case True
    define e where "e = (case elem of Some x \<Rightarrow> x | None \<Rightarrow> e')"
    have step: "matchFilters P ds (f # fs) es = matchFilters P ds fs (es @ [e])"
      using q err True new by (simp add: e_def split: option.splits)
    have fm: "filtersMatch P ds (f # fs) = filtersMatch P ds fs"
      using q True by simp
    from Cons.IH [OF rest, of "es @ [e]"]
    have ih: "filtersMatch P ds fs \<longrightarrow>
            (\<exists>found. matchFilters P ds fs (es @ [e]) = Inr (Some ((es @ [e]) @ found))
                     \<and> length found = length fs)"
      and ih2: "\<not> filtersMatch P ds fs \<longrightarrow> matchFilters P ds fs (es @ [e]) = Inr None"
      by simp_all
    show ?thesis
    proof (cases "filtersMatch P ds fs")
      case True
      with ih obtain found where
        f: "matchFilters P ds fs (es @ [e]) = Inr (Some ((es @ [e]) @ found))"
        "length found = length fs" by blast
      then have "matchFilters P ds (f # fs) es = Inr (Some (es @ (e # found)))
                   \<and> length (e # found) = length (f # fs)"
        using step by simp
      with fm True show ?thesis by blast
    next
      case False
      with ih2 step fm show ?thesis by simp
    qed
  qed
qed

lemma findMatchingFilesLoop_matching:
  assumes "filters \<noteq> []"
    and "\<forall>entry\<in>set dss. \<forall>f\<in>set filters. snd (snd (Query P (snd entry) f)) = None"
    and "\<forall>f\<in>set filters. \<exists>e. NewElement P (Tag f) = Inr e"
  shows "\<exists>ms. findMatchingFilesLoop P dss filters matches = Returns (matches @ ms, None)
            \<and> map path ms = map fst (filter (\<lambda>entry. filtersMatch P (snd entry) filters) dss)"
  using assms
proof (induction dss arbitrary: matches)
  case Nil
  then show ?case by simp
next
  case (Cons entry rest)
  obtain p ds where entry: "entry = (p, ds)" by (cases entry)
  from Cons.prems entry have q: "\<forall>f\<in>set filters. snd (snd (Query P ds f)) = None"
    by simp
  from Cons.prems have rest:
    "\<forall>entry\<in>set rest. \<forall>f\<in>set filters. snd (snd (Query P (snd entry) f)) = None"
    by simp
  note mf = matchFilters_filtersMatch [OF q Cons.prems(3), of "[]"]
  show ?case
  proof (cases "filtersMatch P ds filters")
    case True
    with mf obtain found where f: "matchFilters P ds filters [] = Inr (Some found)"
      "length found = length filters" by auto
    with Cons.prems(1) have "length found \<noteq> 0" by simp
    with f have step: "findMatchingFilesLoop P (entry # rest) filters matches
        = findMatchingFilesLoop P rest filters (matches @ [\<lparr> path = p, elems = found \<rparr>])"
      by (simp add: entry)
    from Cons.IH [OF Cons.prems(1) rest Cons.prems(3), of "matches @ [\<lparr> path = p, elems = found \<rparr>]"]
    obtain ms where ms:
      "findMatchingFilesLoop P rest filters (matches @ [\<lparr> path = p, elems = found \<rparr>])
         = Returns ((matches @ [\<lparr> path = p, elems = found \<rparr>]) @ ms, None)"
      "map path ms = map fst (filter (\<lambda>entry. filtersMatch P (snd entry) filters) rest)"
      by blast
    from step ms True entry show ?thesis
      by (intro exI [of _ "\<lparr> path = p, elems = found \<rparr> # ms"]) simp
  next
    case False
    with mf have "matchFilters P ds filters [] = Inr None" by simp
    then have step: "findMatchingFilesLoop P (entry # rest) filters matches
        = findMatchingFilesLoop P rest filters matches"
      by (simp add: entry)
    from Cons.IH [OF Cons.prems(1) rest Cons.prems(3), of matches] step False entry
    show ?thesis by simp
  qed
qed

lemma Path_moveResponses: "map Path (moveResponses P n i ms) = map path ms"
  by (induction ms arbitrary: i) (auto simp: Let_def split: prod.splits option.splits)

text \<open>
  C9, as it is stated, fails. With an empty list of filter elements every data set passes
  the loop over the filters with no element collected, and findMatchingFiles panics on the
  first of them: the filter matches both data sets of the store, and no response is sent.
  And when a query reports an error, one response is sent, which carries the error: on the
  second server the filter matches two data sets, the query of the third one fails, and
  the channel yields one response.
\<close>

theorem onCMoveOrCGet_empty_filter_panics:
  "length (matchingDatasets exampleStore exampleServer []) = 2
   \<and> onCMoveOrCGet exampleStore exampleServer '''' '''' []
     = Panics (MatchWithoutElements ''a.dcm'')
   \<and> length (matchingDatasets exampleStore brokenServer anyPatient) = 2
   \<and> onCMoveOrCGet exampleStore brokenServer '''' '''' anyPatient
     = Returns [\<lparr> Remaining = 0, Path = '''', DataSet = None,
                  Err = Some (DicomError ''cannot compare raw bytes'') \<rparr>]"
proof (intro conjI)
  show "length (matchingDatasets exampleStore exampleServer []) = 2" by code_simp
  show "onCMoveOrCGet exampleStore exampleServer '''' '''' []
     = Panics (MatchWithoutElements ''a.dcm'')" by code_simp
  show "length (matchingDatasets exampleStore brokenServer anyPatient) = 2" by code_simp
  show "onCMoveOrCGet exampleStore brokenServer '''' '''' anyPatient
     = Returns [\<lparr> Remaining = 0, Path = '''', DataSet = None,
                  Err = Some (DicomError ''cannot compare raw bytes'') \<rparr>]" by code_simp
qed

text \<open>
  C9, amended. For every C-MOVE or C-GET request whose list of filter elements is not
  empty, when no query of a data set of the server by a filter element and no construction
  of an element for the tag of a filter element reports an error, and the filter matches
  \<open>n \<ge> 1\<close> of the data sets: the goroutine of onCMoveOrCGet sends exactly \<open>n\<close> responses
  before it closes the channel, one for each matching data set, in the order in which the
  map is visited; the response of index \<open>i\<close> (from 0) carries \<open>Remaining = n - i - 1\<close>, so
  \<open>Remaining\<close> goes down from each response to the next and is 0 on the last one. This
  holds whether or not the files can be read.
\<close>

theorem onCMoveOrCGet_remaining:
  assumes "filters \<noteq> []"
    and "\<forall>entry\<in>set (datasets ss). \<forall>f\<in>set filters. snd (snd (Query P (snd entry) f)) = None"
    and "\<forall>f\<in>set filters. \<exists>e. NewElement P (Tag f) = Inr e"
    and "n = length (matchingDatasets P ss filters)" and "1 \<le> n"
  shows "\<exists>out. onCMoveOrCGet P ss transferSyntaxUID sopClassUID filters = Returns out
           \<and> length out = n
           \<and> map Path out = map fst (matchingDatasets P ss filters)
           \<and> (\<forall>i<n. Remaining (out ! i) = int n - int i - 1)
           \<and> (\<forall>i. Suc i < n \<longrightarrow> Remaining (out ! Suc i) < Remaining (out ! i))
           \<and> Remaining (last out) = 0"
proof -
  from findMatchingFilesLoop_matching [OF assms(1-3), of "[]"]
  obtain matches where found: "findMatchingFiles P ss filters = Returns (matches, None)"
    and paths: "map path matches = map fst (matchingDatasets P ss filters)"
    by (auto simp: findMatchingFiles_def matchingDatasets_def)
  from paths assms(4) have len: "length matches = n"
    by (metis length_map)
  let ?out = "moveResponses P n 0 matches"
  have run: "onCMoveOrCGet P ss transferSyntaxUID sopClassUID filters = Returns ?out"
    using found len by (simp add: onCMoveOrCGet_def)
  have lout: "length ?out = n"
    using len by (simp add: length_moveResponses)
  have pout: "map Path ?out = map fst (matchingDatasets P ss filters)"
    using paths by (simp add: Path_moveResponses)
  have rem: "\<forall>i<n. Remaining (?out ! i) = int n - int i - 1"
    using len by (simp add: Remaining_moveResponses)
  have dec: "\<forall>i. Suc i < n \<longrightarrow> Remaining (?out ! Suc i) < Remaining (?out ! i)"
    using rem by auto
  have "?out \<noteq> []" using lout assms(5) by auto
  then have "last ?out = ?out ! (n - 1)"
    using lout by (simp add: last_conv_nth)
  with rem assms(5) have "Remaining (last ?out) = 0"
    by simp
  with run lout pout rem dec show ?thesis by blast
qed

theorem onCMoveOrCGet_remaining_witness:
  "anyPatient \<noteq> []
   \<and> length (matchingDatasets exampleStore exampleServer anyPatient) = 2
   \<and> map Remaining (case onCMoveOrCGet exampleStore exampleServer '''' '''' anyPatient of
                       Returns out \<Rightarrow> out | _ \<Rightarrow> []) = [1, 0]
   \<and> map Path (case onCMoveOrCGet exampleStore exampleServer '''' '''' anyPatient of
                       Returns out \<Rightarrow> out | _ \<Rightarrow> []) = [''a.dcm'', ''b.dcm'']"
proof -
  have 1: "anyPatient \<noteq> []" by code_simp
  have 2: "\<forall>entry\<in>set (datasets exampleServer). \<forall>f\<in>set anyPatient.
             snd (snd (Query exampleStore (snd entry) f)) = None"
    by code_simp
  have 3: "\<forall>f\<in>set anyPatient. \<exists>e. NewElement exampleStore (Tag f) = Inr e"
    by (simp add: exampleStore_def)
  have 4: "2 = length (matchingDatasets exampleStore exampleServer anyPatient)" by code_simp
  have m: "map fst (matchingDatasets exampleStore exampleServer anyPatient) = [''a.dcm'', ''b.dcm'']"
    by code_simp
  from onCMoveOrCGet_remaining [OF 1 2 3 4, of "''''" "''''"]
  obtain out where out: "onCMoveOrCGet exampleStore exampleServer '''' '''' anyPatient = Returns out"
    "length out = 2" "map Path out = map fst (matchingDatasets exampleStore exampleServer anyPatient)"
    "\<forall>i<2. Remaining (out ! i) = int 2 - int i - 1"
    by auto
  from out(4) have "Remaining (out ! 0) = 1" "Remaining (out ! 1) = 0"
    by simp_all
  with out(2) have "map Remaining out = [1, 0]"
    by (cases out; cases "tl out") auto
  with out(1,3) m 1 4 show ?thesis by simp
qed

end
